theory Spec2Isabelle
  imports Main "HOL-Library.Word"
begin

section \<open>minidump\_dump: the data the tool works on\<close>

text \<open>
  The theory embeds \<^verbatim>\<open>src/processor/minidump_dump.cc\<close>: the option parser
  \<^verbatim>\<open>SetupOptions\<close>, the three output modes of \<^verbatim>\<open>PrintMinidumpDump\<close>, the raw
  stream renderer \<^verbatim>\<open>DumpRawStream\<close> and \<^verbatim>\<open>main\<close>.

  The minidump reader (class \<^verbatim>\<open>Minidump\<close> and the record classes it hands out) is a
  library the file calls. Its answers are the input of the model: a value of type
  \<open>Minidump\<close> below fixes what every call of the reader returns for one dump file.
  What the tool does with those answers is modelled from the source, statement by
  statement. Everything the tool does that can be observed from outside (text written to
  a stream, a log line, a call into the reader) is an \<open>event\<close>, and every function
  returns the events it produced, in order.
\<close>

type_synonym uint32_t = "32 word"

definition NUL :: char where
  "NUL = CHR 0x00"

definition UINT32_MAX :: uint32_t where
  "UINT32_MAX = 0xFFFFFFFF"

text \<open>\<^verbatim>\<open>struct Options\<close> with the defaults of its constructor.\<close>

record Options =
  minidumpPath :: string
  hexdump :: bool
  hexdump_width :: nat
  modules_debug_info :: bool
  platform_info :: bool

definition Options_init :: Options where
  "Options_init =
     \<lparr>minidumpPath = [], hexdump = False, hexdump_width = 16,
      modules_debug_info = False, platform_info = False\<rparr>"

text \<open>
  A module of the module list: the four texts the module summary prints. A module list
  answers \<^verbatim>\<open>module_count()\<close> and, for an index, \<^verbatim>\<open>GetModuleAtIndex(i)\<close>,
  which is a pointer that may be null (\<open>None\<close>).
\<close>

record MinidumpModule =
  code_file :: string
  code_identifier' :: string
  debug_file :: string
  debug_identifier :: string

record MinidumpModuleList =
  module_count :: nat
  GetModuleAtIndex :: "nat \<Rightarrow> MinidumpModule option"

text \<open>
  \<^verbatim>\<open>MDRawSystemInfo\<close>: the three version components are unsigned 32-bit fields.
  \<^verbatim>\<open>MinidumpSystemInfo::system_info()\<close> is a pointer to it that may be null.
\<close>

record MDRawSystemInfo =
  major_version :: uint32_t
  minor_version :: uint32_t
  build_number :: uint32_t

record MinidumpSystemInfo =
  system_info :: "MDRawSystemInfo option"
  GetOS :: string
  GetCPU :: string

text \<open>
  The six stream types that \<^verbatim>\<open>DumpRawStream\<close> is called with, enumerators of
  \<^verbatim>\<open>MDStreamType\<close>.
\<close>

datatype MDStreamType =
    MD_LINUX_CMD_LINE
  | MD_LINUX_ENVIRON
  | MD_LINUX_LSB_RELEASE
  | MD_LINUX_PROC_STATUS
  | MD_LINUX_CPU_INFO
  | MD_LINUX_MAPS

text \<open>
  A raw stream that \<^verbatim>\<open>SeekToStreamType\<close> locates: either its bytes can be read
  (\<^verbatim>\<open>ReadBytes\<close> succeeds and fills the buffer with them, so the located length is
  the number of bytes), or it has a length and \<^verbatim>\<open>ReadBytes\<close> fails.
\<close>

datatype raw_stream = Readable "char list" | Unreadable nat

fun stream_length :: "raw_stream \<Rightarrow> nat" where
  "stream_length (Readable bs) = length bs"
| "stream_length (Unreadable n) = n"

fun ReadBytes :: "raw_stream \<Rightarrow> char list option" where
  "ReadBytes (Readable bs) = Some bs"
| "ReadBytes (Unreadable n) = None"

text \<open>
  The structured records of a dump. For the records the tool only prints through their
  own \<^verbatim>\<open>Print()\<close>, the reader's answer is whether the pointer is non-null.
\<close>

datatype record_kind =
    ThreadList
  | ThreadNameList
  | ModuleList
  | MemoryList
  | Exception
  | Assertion
  | SystemInfo
  | MiscInfo
  | BreakpadInfo
  | MemoryInfoList
  | CrashpadInfo

text \<open>
  One dump file as the reader presents it. \<open>GetModuleList\<close> takes the module-count
  ceiling in force: \<open>None\<close> while \<^verbatim>\<open>set_max_modules\<close> has not been called (the
  library's default applies), \<open>Some n\<close> after \<^verbatim>\<open>set_max_modules(n)\<close>.
\<close>

record Minidump =
  Read :: bool
  GetThreadList :: bool
  GetThreadNameList :: bool
  GetModuleList :: "uint32_t option \<Rightarrow> MinidumpModuleList option"
  GetMemoryList :: bool
  GetException :: bool
  GetAssertion :: bool
  GetSystemInfo :: "MinidumpSystemInfo option"
  GetMiscInfo :: bool
  GetBreakpadInfo :: bool
  GetMemoryInfoList :: bool
  GetCrashpadInfo :: bool
  SeekToStreamType :: "MDStreamType \<Rightarrow> raw_stream option"

datatype FILE = stdout | stderr

datatype severity = ERROR | INFO

datatype event =
    fprintf FILE string
  | BPLOG severity string
  | Call_Read
  | Call_Print
  | Call_Get record_kind
  | Call_Print_of record_kind
  | Call_set_max_modules uint32_t
  | Call_SeekToStreamType MDStreamType
  | Call_ReadBytes MDStreamType nat

abbreviation printf :: "string \<Rightarrow> event" where
  "printf s \<equiv> fprintf stdout s"

text \<open>The text a run wrote to one stream: the \<open>fprintf\<close> events on it, concatenated.\<close>

fun text_on :: "FILE \<Rightarrow> event list \<Rightarrow> string" where
  "text_on fp [] = []"
| "text_on fp (fprintf fp' s # es) = (if fp' = fp then s @ text_on fp es else text_on fp es)"
| "text_on fp (e # es) = text_on fp es"

section \<open>The raw stream renderer\<close>

text \<open>
  A write past the end of a fixed-size buffer, or a read past the end of one, is
  undefined behaviour: the run has no defined result from there on, and the model stops
  it with a \<open>fault\<close>.
\<close>

datatype fault = BufferOverrun | BufferOverread

text \<open>
  \<^verbatim>\<open>printf("%.*s", int_remaining, p)\<close>, where \<open>s\<close> is the buffer from \<open>p\<close> to its end.
  The source hands the precision over as a \<^verbatim>\<open>uint32_t\<close> and \<open>printf\<close> reads it as
  an \<^verbatim>\<open>int\<close>, here \<open>sint\<close> of the 32-bit word. A precision that is not negative
  makes \<open>printf\<close> write the bytes up to the first NUL, and at most that many of them.
  A negative precision counts as no precision: \<open>printf\<close> writes up to the first NUL
  wherever that is, and when the buffer holds none it reads past the end of the buffer.
\<close>

definition printf_prec_s :: "uint32_t \<Rightarrow> char list \<Rightarrow> fault + string" where
  "printf_prec_s int_remaining s =
     (let precision = sint int_remaining
      in if 0 \<le> precision then Inr (takeWhile (\<lambda>c. c \<noteq> NUL) (take (nat precision) s))
         else if NUL \<in> set s then Inr (takeWhile (\<lambda>c. c \<noteq> NUL) s)
         else Inl BufferOverread)"

text \<open>
  \<^verbatim>\<open>memchr(p, c, n)\<close>: the offset from \<open>p\<close> of the first byte equal to \<open>c\<close> among the
  first \<open>n\<close> bytes, \<open>None\<close> for the null pointer.
\<close>

fun memchr :: "char list \<Rightarrow> char \<Rightarrow> nat \<Rightarrow> nat option" where
  "memchr s c 0 = None"
| "memchr [] c (Suc n) = None"
| "memchr (x # s) c (Suc n) = (if x = c then Some 0 else map_option Suc (memchr s c n))"

text \<open>
  The \<^verbatim>\<open>while (current_offset < length)\<close> loop of \<^verbatim>\<open>DumpRawStream\<close>: the events
  of the loop, and whether it ran to its end or was stopped by a fault. Each turn
  prints the span at the current offset, with the number of bytes left narrowed to a
  \<^verbatim>\<open>uint32_t\<close> as its precision; when \<open>memchr\<close> finds no NUL the loop is left
  (\<^verbatim>\<open>break\<close>), otherwise the marker is printed (a backslash, the digit 0 and a line
  break: character \<open>0x5C\<close> is the backslash) and the offset moves past the NUL.
\<close>

function DumpRawStream_loop :: "char list \<Rightarrow> nat \<Rightarrow> nat \<Rightarrow> event list \<times> (fault + unit)" where
  "DumpRawStream_loop contents len current_offset =
     (if current_offset < len then
        (let remaining = len - current_offset;
             int_remaining = (of_nat remaining :: uint32_t)
         in case printf_prec_s int_remaining (drop current_offset contents) of
              Inl f \<Rightarrow> ([], Inl f)
            | Inr span \<Rightarrow>
                (case memchr (drop current_offset contents) NUL remaining of
                   None \<Rightarrow> ([printf span], Inr ())
                 | Some k \<Rightarrow>
                     (let null_offset = current_offset + k
                      in case DumpRawStream_loop contents len (null_offset + 1) of
                           (es, r) \<Rightarrow>
                             (printf span # printf [CHR 0x5C, CHR ''0'', CHR ''\<newline>''] # es, r))))
      else ([], Inr ()))"
  by pat_completeness auto
termination
  by (relation "measure (\<lambda>(contents, len, current_offset). len - current_offset)") auto

declare DumpRawStream_loop.simps [simp del]

text \<open>
  \<^verbatim>\<open>DumpRawStream(minidump, stream_type, stream_name, errors)\<close>. The result is the
  events of the call and the new value of \<^verbatim>\<open>*errors\<close>, or the fault that stopped
  the call. The length that \<^verbatim>\<open>SeekToStreamType\<close> gives is a \<^verbatim>\<open>uint32_t\<close>: a stream
  has fewer than \<open>2\<^sup>3\<^sup>2\<close> bytes.
\<close>

definition DumpRawStream ::
  "Minidump \<Rightarrow> MDStreamType \<Rightarrow> string \<Rightarrow> int \<Rightarrow> event list \<times> (fault + int)" where
  "DumpRawStream minidump stream_type stream_name errors =
     (case SeekToStreamType minidump stream_type of
        None \<Rightarrow> ([Call_SeekToStreamType stream_type], Inr errors)
      | Some st \<Rightarrow>
          (let len = stream_length st;
               header = [Call_SeekToStreamType stream_type,
                         printf (''Stream '' @ stream_name @ '':\<newline>'')]
           in if len = 0 then (header @ [printf ''\<newline>''], Inr errors)
              else (case ReadBytes st of
                      None \<Rightarrow>
                        (header @ [Call_ReadBytes stream_type len,
                                   BPLOG ERROR ''minidump.ReadBytes failed''],
                         Inr (errors + 1))
                    | Some contents \<Rightarrow>
                        (case DumpRawStream_loop contents len 0 of
                           (es, Inl f) \<Rightarrow>
                             (header @ [Call_ReadBytes stream_type len] @ es, Inl f)
                         | (es, Inr u) \<Rightarrow>
                             (header @ [Call_ReadBytes stream_type len] @ es @
                              [printf ''\<newline>\<newline>''],
                              Inr errors)))))"

section \<open>The module summary and the platform summary\<close>

text \<open>
  \<^verbatim>\<open>printf("%s", s.c_str())\<close> writes the bytes of \<open>s\<close> up to its first NUL, which for a
  \<^verbatim>\<open>std::string\<close> without an embedded NUL is all of \<open>s\<close>.
\<close>

definition c_str :: "string \<Rightarrow> string" where
  "c_str s = takeWhile (\<lambda>c. c \<noteq> NUL) s"

text \<open>The line \<^verbatim>\<open>printf("%s;%s;%s;%s\n", ...)\<close> writes for one module.\<close>

definition module_line :: "MinidumpModule \<Rightarrow> string" where
  "module_line m =
     c_str (code_file m) @ '';'' @ c_str (code_identifier' m) @ '';'' @
     c_str (debug_file m) @ '';'' @ c_str (debug_identifier m) @ ''\<newline>''"

text \<open>
  The \<^verbatim>\<open>for (unsigned int i = 0; i < modules_n; ++i)\<close> loop of the module summary,
  from index \<open>i\<close> on: a module that \<^verbatim>\<open>GetModuleAtIndex\<close> does not give (a null
  pointer) is passed over.
\<close>

function modules_loop :: "MinidumpModuleList \<Rightarrow> nat \<Rightarrow> nat \<Rightarrow> event list" where
  "modules_loop modules modules_n i =
     (if i < modules_n then
        (case GetModuleAtIndex modules i of
           None \<Rightarrow> []
         | Some m \<Rightarrow> [printf (module_line m)]) @
        modules_loop modules modules_n (i + 1)
      else [])"
  by pat_completeness auto
termination
  by (relation "measure (\<lambda>(modules, modules_n, i). modules_n - i)") auto

declare modules_loop.simps [simp del]

text \<open>
  The branch \<^verbatim>\<open>if (options.modules_debug_info)\<close> of \<^verbatim>\<open>PrintMinidumpDump\<close>: the
  events and the value returned.
\<close>

definition ModulesDebugInfo :: "Minidump \<Rightarrow> event list \<times> (fault + bool)" where
  "ModulesDebugInfo minidump =
     (case GetModuleList minidump None of
        Some modules \<Rightarrow>
          (Call_Get ModuleList # modules_loop modules (module_count modules) 0, Inr True)
      | None \<Rightarrow> ([Call_Get ModuleList], Inr False))"

text \<open>\<^verbatim>\<open>%u\<close>: an unsigned number in decimal, without leading zeros.\<close>

definition digit :: "nat \<Rightarrow> char" where
  "digit d = ''0123456789'' ! d"

fun fmt_u :: "nat \<Rightarrow> string" where
  "fmt_u n = (if n < 10 then [digit n] else fmt_u (n div 10) @ [digit (n mod 10)])"

declare fmt_u.simps [simp del]

text \<open>The text \<^verbatim>\<open>"%u.%u.%u"\<close> makes of the three version components.\<close>

definition version_text :: "MDRawSystemInfo \<Rightarrow> string" where
  "version_text raw =
     fmt_u (unat (major_version raw)) @ ''.'' @ fmt_u (unat (minor_version raw)) @ ''.'' @
     fmt_u (unat (build_number raw))"

text \<open>
  \<^verbatim>\<open>char sys_ver[32] = {0}; sprintf(sys_ver, "%u.%u.%u", ...)\<close>: \<open>sprintf\<close> writes the
  text and a closing NUL into the 32 bytes of \<open>sys_ver\<close>. When they do not fit it writes
  past the end of the array.
\<close>

definition sys_ver_size :: nat where
  "sys_ver_size = 32"

definition sprintf_sys_ver :: "MDRawSystemInfo \<Rightarrow> fault + string" where
  "sprintf_sys_ver raw =
     (if length (version_text raw) + 1 \<le> sys_ver_size then Inr (version_text raw)
      else Inl BufferOverrun)"

text \<open>The branch \<^verbatim>\<open>if (options.platform_info)\<close> of \<^verbatim>\<open>PrintMinidumpDump\<close>.\<close>

definition PlatformInfo :: "Minidump \<Rightarrow> event list \<times> (fault + bool)" where
  "PlatformInfo minidump =
     (case GetSystemInfo minidump of
        Some sys_info \<Rightarrow>
          (case (case system_info sys_info of
                   None \<Rightarrow> Inr []
                 | Some sys_info_raw \<Rightarrow> sprintf_sys_ver sys_info_raw) of
             Inl f \<Rightarrow> ([Call_Get SystemInfo], Inl f)
           | Inr sys_ver \<Rightarrow>
               ([Call_Get SystemInfo,
                 printf (c_str (GetOS sys_info) @ '';'' @ sys_ver @ '';'' @
                         c_str (GetCPU sys_info) @ ''\<newline>'')],
                Inr True))
      | None \<Rightarrow> ([Call_Get SystemInfo], Inr False))"

section \<open>The full dump\<close>

text \<open>
  The full dump is a sequence of blocks, each of which asks the reader for one record,
  prints it or logs that it is missing, and may count an error. A block is a function
  from the value of \<^verbatim>\<open>errors\<close> before it to its events and the value after it, or
  the fault that stopped it.
\<close>

type_synonym step = "int \<Rightarrow> event list \<times> (fault + int)"

definition ThreadList_step :: "Minidump \<Rightarrow> step" where
  "ThreadList_step minidump errors =
     (if \<not> GetThreadList minidump then
        ([Call_Get ThreadList, BPLOG ERROR ''minidump.GetThreadList() failed''],
         Inr (errors + 1))
      else ([Call_Get ThreadList, Call_Print_of ThreadList], Inr errors))"

definition ThreadNameList_step :: "Minidump \<Rightarrow> step" where
  "ThreadNameList_step minidump errors =
     (if GetThreadNameList minidump then
        ([Call_Get ThreadNameList, Call_Print_of ThreadNameList], Inr errors)
      else ([Call_Get ThreadNameList], Inr errors))"

definition ModuleList_step :: "Minidump \<Rightarrow> step" where
  "ModuleList_step minidump errors =
     (case GetModuleList minidump (Some UINT32_MAX) of
        None \<Rightarrow>
          ([Call_set_max_modules UINT32_MAX, Call_Get ModuleList,
            BPLOG ERROR ''minidump.GetModuleList() failed''], Inr (errors + 1))
      | Some module_list \<Rightarrow>
          ([Call_set_max_modules UINT32_MAX, Call_Get ModuleList, Call_Print_of ModuleList],
           Inr errors))"

definition MemoryList_step :: "Minidump \<Rightarrow> step" where
  "MemoryList_step minidump errors =
     (if \<not> GetMemoryList minidump then
        ([Call_Get MemoryList, BPLOG ERROR ''minidump.GetMemoryList() failed''], Inr (errors + 1))
      else ([Call_Get MemoryList, Call_Print_of MemoryList], Inr errors))"

definition Exception_step :: "Minidump \<Rightarrow> step" where
  "Exception_step minidump errors =
     (if \<not> GetException minidump then
        ([Call_Get Exception, BPLOG INFO ''minidump.GetException() failed''], Inr errors)
      else ([Call_Get Exception, Call_Print_of Exception], Inr errors))"

definition Assertion_step :: "Minidump \<Rightarrow> step" where
  "Assertion_step minidump errors =
     (if \<not> GetAssertion minidump then
        ([Call_Get Assertion, BPLOG INFO ''minidump.GetAssertion() failed''], Inr errors)
      else ([Call_Get Assertion, Call_Print_of Assertion], Inr errors))"

definition SystemInfo_step :: "Minidump \<Rightarrow> step" where
  "SystemInfo_step minidump errors =
     (case GetSystemInfo minidump of
        None \<Rightarrow>
          ([Call_Get SystemInfo, BPLOG ERROR ''minidump.GetSystemInfo() failed''], Inr (errors + 1))
      | Some system_info_ptr \<Rightarrow> ([Call_Get SystemInfo, Call_Print_of SystemInfo], Inr errors))"

definition MiscInfo_step :: "Minidump \<Rightarrow> step" where
  "MiscInfo_step minidump errors =
     (if \<not> GetMiscInfo minidump then
        ([Call_Get MiscInfo, BPLOG ERROR ''minidump.GetMiscInfo() failed''], Inr (errors + 1))
      else ([Call_Get MiscInfo, Call_Print_of MiscInfo], Inr errors))"

definition BreakpadInfo_step :: "Minidump \<Rightarrow> step" where
  "BreakpadInfo_step minidump errors =
     (if \<not> GetBreakpadInfo minidump then
        ([Call_Get BreakpadInfo, BPLOG INFO ''minidump.GetBreakpadInfo() failed''], Inr errors)
      else ([Call_Get BreakpadInfo, Call_Print_of BreakpadInfo], Inr errors))"

definition MemoryInfoList_step :: "Minidump \<Rightarrow> step" where
  "MemoryInfoList_step minidump errors =
     (if \<not> GetMemoryInfoList minidump then
        ([Call_Get MemoryInfoList, BPLOG ERROR ''minidump.GetMemoryInfoList() failed''],
         Inr (errors + 1))
      else ([Call_Get MemoryInfoList, Call_Print_of MemoryInfoList], Inr errors))"

definition CrashpadInfo_step :: "Minidump \<Rightarrow> step" where
  "CrashpadInfo_step minidump errors =
     (if GetCrashpadInfo minidump then
        ([Call_Get CrashpadInfo, Call_Print_of CrashpadInfo], Inr errors)
      else ([Call_Get CrashpadInfo], Inr errors))"

text \<open>The blocks of the full dump after \<^verbatim>\<open>minidump.Print()\<close>, in the order of the source.\<close>

definition full_dump_steps :: "Minidump \<Rightarrow> step list" where
  "full_dump_steps minidump =
     [ThreadList_step minidump,
      ThreadNameList_step minidump,
      ModuleList_step minidump,
      MemoryList_step minidump,
      Exception_step minidump,
      Assertion_step minidump,
      SystemInfo_step minidump,
      MiscInfo_step minidump,
      BreakpadInfo_step minidump,
      MemoryInfoList_step minidump,
      CrashpadInfo_step minidump,
      DumpRawStream minidump MD_LINUX_CMD_LINE ''MD_LINUX_CMD_LINE'',
      DumpRawStream minidump MD_LINUX_ENVIRON ''MD_LINUX_ENVIRON'',
      DumpRawStream minidump MD_LINUX_LSB_RELEASE ''MD_LINUX_LSB_RELEASE'',
      DumpRawStream minidump MD_LINUX_PROC_STATUS ''MD_LINUX_PROC_STATUS'',
      DumpRawStream minidump MD_LINUX_CPU_INFO ''MD_LINUX_CPU_INFO'',
      DumpRawStream minidump MD_LINUX_MAPS ''MD_LINUX_MAPS'']"

text \<open>
  Running the blocks one after the other: the events add up, the counter is handed on,
  and a fault ends the run.
\<close>

fun run_steps :: "step list \<Rightarrow> int \<Rightarrow> event list \<times> (fault + int)" where
  "run_steps [] errors = ([], Inr errors)"
| "run_steps (f # fs) errors =
     (case f errors of
        (es, Inl x) \<Rightarrow> (es, Inl x)
      | (es, Inr errors') \<Rightarrow>
          (case run_steps fs errors' of (es', r) \<Rightarrow> (es @ es', r)))"

text \<open>
  The full dump, from \<^verbatim>\<open>minidump.Print()\<close> to \<^verbatim>\<open>return errors == 0\<close>.
  \<open>FullDump_run\<close> gives the value of \<^verbatim>\<open>errors\<close> at that \<^verbatim>\<open>return\<close>.
\<close>

definition FullDump_run :: "Minidump \<Rightarrow> event list \<times> (fault + int)" where
  "FullDump_run minidump =
     (case run_steps (full_dump_steps minidump) 0 of (es, r) \<Rightarrow> (Call_Print # es, r))"

definition FullDump :: "Minidump \<Rightarrow> event list \<times> (fault + bool)" where
  "FullDump minidump =
     (case FullDump_run minidump of
        (es, Inl f) \<Rightarrow> (es, Inl f)
      | (es, Inr errors) \<Rightarrow> (es, Inr (errors = 0)))"

section \<open>PrintMinidumpDump, SetupOptions and main\<close>

text \<open>
  What the file takes from outside: the reader's view of the file at a path (opened with
  the hexdump flag), \<^verbatim>\<open>google_breakpad::BaseName\<close>, and whether the C library's
  \<^verbatim>\<open>getopt\<close> moves operands behind the options (as GNU's does) or stops at the first
  operand (as POSIX says).
\<close>

record env =
  open_minidump :: "string \<Rightarrow> bool \<Rightarrow> Minidump"
  BaseName :: "string \<Rightarrow> string"
  getopt_permutes :: bool

definition PrintMinidumpDump :: "env \<Rightarrow> Options \<Rightarrow> event list \<times> (fault + bool)" where
  "PrintMinidumpDump e options =
     (let minidump = open_minidump e (minidumpPath options) (hexdump options)
      in if \<not> Read minidump then
           ([Call_Read, BPLOG ERROR ''minidump.Read() failed''], Inr False)
         else (case (if modules_debug_info options then ModulesDebugInfo minidump
                     else if platform_info options then PlatformInfo minidump
                     else FullDump minidump) of
                 (es, r) \<Rightarrow> (Call_Read # es, r)))"

text \<open>The text of \<^verbatim>\<open>Usage\<close>, with the base name of \<^verbatim>\<open>argv[0]\<close> put in.\<close>

definition Usage_text :: "string \<Rightarrow> string" where
  "Usage_text base =
     ''Usage: '' @ base @ '' [options...] <minidump>\<newline>'' @
     ''Dump data in a minidump.\<newline>'' @
     ''\<newline>'' @
     ''Options:\<newline>'' @
     ''  <minidump> should be a minidump.\<newline>'' @
     ''  -x:'' @ [CHR 0x09] @ '' Display memory in a hexdump like format\<newline>'' @
     ''  -M:'' @ [CHR 0x09] @ '' Display modules and debug information\<newline>'' @
     ''  -P:'' @ [CHR 0x09] @ '' Display platform information\<newline>'' @
     ''  -h:'' @ [CHR 0x09] @ '' Usage\<newline>''"

definition Usage :: "env \<Rightarrow> string \<Rightarrow> bool \<Rightarrow> event" where
  "Usage e argv0 error =
     fprintf (if error then stderr else stdout) (Usage_text (c_str (BaseName e argv0)))"

text \<open>
  The C library's \<^verbatim>\<open>getopt(argc, argv, "xMPh")\<close>, called until it returns \<open>-1\<close>: the
  option characters it returns, in order, and the operands left at \<^verbatim>\<open>argv[optind]\<close>
  and after. An argument is a group of options when it starts with \<open>-\<close> and has more
  characters; \<open>--\<close> ends the options; a character outside \<^verbatim>\<open>"xMPh"\<close> is returned as
  \<open>?\<close>. (The diagnostic the library itself prints for such a character is not among the
  events.)
\<close>

definition getopt_char :: "char \<Rightarrow> char" where
  "getopt_char c = (if c \<in> set ''xMPh'' then c else CHR ''?'')"

fun getopt_scan :: "bool \<Rightarrow> string list \<Rightarrow> char list \<times> string list" where
  "getopt_scan permute [] = ([], [])"
| "getopt_scan permute (a # args) =
     (if a = ''--'' then ([], args)
      else if 2 \<le> length a \<and> hd a = CHR ''-'' then
        (case getopt_scan permute args of (chs, operands) \<Rightarrow>
           (map getopt_char (tl a) @ chs, operands))
      else if permute then
        (case getopt_scan permute args of (chs, operands) \<Rightarrow> (chs, a # operands))
      else ([], a # args))"

text \<open>\<^verbatim>\<open>exit(n)\<close> ends the process; otherwise a function hands back its result.\<close>

datatype 'a flow = Exit int | Continue 'a

text \<open>
  The \<^verbatim>\<open>while ((ch = getopt(...)) != -1) switch (ch)\<close> loop of \<^verbatim>\<open>SetupOptions\<close>, over
  the characters \<open>getopt\<close> returns.
\<close>

fun SetupOptions_loop :: "env \<Rightarrow> string \<Rightarrow> char list \<Rightarrow> Options \<Rightarrow> event list \<times> Options flow" where
  "SetupOptions_loop e argv0 [] options = ([], Continue options)"
| "SetupOptions_loop e argv0 (ch # chs) options =
     (if ch = CHR ''x'' then SetupOptions_loop e argv0 chs (options\<lparr>hexdump := True\<rparr>)
      else if ch = CHR ''M'' then
        SetupOptions_loop e argv0 chs (options\<lparr>modules_debug_info := True\<rparr>)
      else if ch = CHR ''P'' then SetupOptions_loop e argv0 chs (options\<lparr>platform_info := True\<rparr>)
      else if ch = CHR ''h'' then ([Usage e argv0 False], Exit 0)
      else ([Usage e argv0 True], Exit 1))"

definition SetupOptions ::
  "env \<Rightarrow> string \<Rightarrow> string list \<Rightarrow> Options \<Rightarrow> event list \<times> Options flow" where
  "SetupOptions e argv0 args options =
     (case getopt_scan (getopt_permutes e) args of (chs, operands) \<Rightarrow>
        (case SetupOptions_loop e argv0 chs options of
           (es, Exit n) \<Rightarrow> (es, Exit n)
         | (es, Continue options') \<Rightarrow>
             if length operands \<noteq> 1 then
               (es @ [fprintf stderr (argv0 @ '': Missing minidump file\<newline>'')], Exit 1)
             else (es, Continue (options'\<lparr>minidumpPath := hd operands\<rparr>))))"

text \<open>
  \<^verbatim>\<open>main\<close>, for \<^verbatim>\<open>argv[0]\<close> and the arguments after it: the events of the run and
  the exit code of the process, or the fault that ended it. (\<^verbatim>\<open>BPLOG_INIT\<close> sets up
  the logging and has no part in the result.)
\<close>

definition main :: "env \<Rightarrow> string \<Rightarrow> string list \<Rightarrow> event list \<times> (fault + int)" where
  "main e argv0 args =
     (case SetupOptions e argv0 args Options_init of
        (es, Exit n) \<Rightarrow> (es, Inr n)
      | (es, Continue options) \<Rightarrow>
          (case PrintMinidumpDump e options of
             (es', Inl f) \<Rightarrow> (es @ es', Inl f)
           | (es', Inr ok) \<Rightarrow> (es @ es', Inr (if ok then 0 else 1))))"

section \<open>Notions the properties are stated with\<close>

text \<open>
  The marker \<^verbatim>\<open>DumpRawStream\<close> prints for a NUL (backslash, \<open>0\<close>, line break), the
  header line of a stream, and the rendering of a buffer that passes every byte on and
  puts the marker in the place of every NUL.
\<close>

definition terminator_marker :: string where
  "terminator_marker = [CHR 0x5C, CHR ''0'', CHR ''\<newline>'']"

definition stream_header :: "string \<Rightarrow> string" where
  "stream_header stream_name = ''Stream '' @ stream_name @ '':\<newline>''"

definition render :: "char list \<Rightarrow> string" where
  "render s = concat (map (\<lambda>c. if c = NUL then terminator_marker else [c]) s)"

text \<open>
  The raw streams the full dump passes to \<^verbatim>\<open>DumpRawStream\<close>, and when the read of
  a stream fails: the stream is located, it is not empty (an empty one is not read), and
  \<^verbatim>\<open>ReadBytes\<close> returns false.
\<close>

definition raw_catalogue :: "(MDStreamType \<times> string) list" where
  "raw_catalogue =
     [(MD_LINUX_CMD_LINE, ''MD_LINUX_CMD_LINE''),
      (MD_LINUX_ENVIRON, ''MD_LINUX_ENVIRON''),
      (MD_LINUX_LSB_RELEASE, ''MD_LINUX_LSB_RELEASE''),
      (MD_LINUX_PROC_STATUS, ''MD_LINUX_PROC_STATUS''),
      (MD_LINUX_CPU_INFO, ''MD_LINUX_CPU_INFO''),
      (MD_LINUX_MAPS, ''MD_LINUX_MAPS'')]"

definition read_fails :: "Minidump \<Rightarrow> MDStreamType \<Rightarrow> bool" where
  "read_fails minidump t =
     (case SeekToStreamType minidump t of
        None \<Rightarrow> False
      | Some st \<Rightarrow> stream_length st \<noteq> 0 \<and> ReadBytes st = None)"

text \<open>
  Whether the reader gives a record to the full dump, the records whose absence the full
  dump counts, and the ones whose absence it does not count.
\<close>

fun present :: "Minidump \<Rightarrow> record_kind \<Rightarrow> bool" where
  "present minidump ThreadList = GetThreadList minidump"
| "present minidump ThreadNameList = GetThreadNameList minidump"
| "present minidump ModuleList = (GetModuleList minidump (Some UINT32_MAX) \<noteq> None)"
| "present minidump MemoryList = GetMemoryList minidump"
| "present minidump Exception = GetException minidump"
| "present minidump Assertion = GetAssertion minidump"
| "present minidump SystemInfo = (GetSystemInfo minidump \<noteq> None)"
| "present minidump MiscInfo = GetMiscInfo minidump"
| "present minidump BreakpadInfo = GetBreakpadInfo minidump"
| "present minidump MemoryInfoList = GetMemoryInfoList minidump"
| "present minidump CrashpadInfo = GetCrashpadInfo minidump"

definition required_records :: "record_kind list" where
  "required_records = [ThreadList, ModuleList, MemoryList, SystemInfo, MiscInfo, MemoryInfoList]"

definition optional_records :: "record_kind list" where
  "optional_records = [ThreadNameList, Exception, Assertion, BreakpadInfo, CrashpadInfo]"

text \<open>
  What the error counter of a full dump comes to: the counted records that are missing
  and the raw streams whose read fails.
\<close>

definition expected_tally :: "Minidump \<Rightarrow> int" where
  "expected_tally minidump =
     int (length (filter (\<lambda>k. \<not> present minidump k) required_records)) +
     int (length (filter (read_fails minidump) (map fst raw_catalogue)))"

text \<open>
  What the full dump does for one record: it asks the reader for it (for the module
  list after raising the module-count ceiling), then prints the record when it is
  there and otherwise logs what \<open>absence_log\<close> says: an error for a counted record,
  an information for the exception, the assertion and the Breakpad information, nothing
  for the thread names and the Crashpad information. \<open>full_dump_records\<close> are the
  eleven records in the order of the full dump.
\<close>

fun absence_log :: "record_kind \<Rightarrow> event list" where
  "absence_log ThreadList = [BPLOG ERROR ''minidump.GetThreadList() failed'']"
| "absence_log ThreadNameList = []"
| "absence_log ModuleList = [BPLOG ERROR ''minidump.GetModuleList() failed'']"
| "absence_log MemoryList = [BPLOG ERROR ''minidump.GetMemoryList() failed'']"
| "absence_log Exception = [BPLOG INFO ''minidump.GetException() failed'']"
| "absence_log Assertion = [BPLOG INFO ''minidump.GetAssertion() failed'']"
| "absence_log SystemInfo = [BPLOG ERROR ''minidump.GetSystemInfo() failed'']"
| "absence_log MiscInfo = [BPLOG ERROR ''minidump.GetMiscInfo() failed'']"
| "absence_log BreakpadInfo = [BPLOG INFO ''minidump.GetBreakpadInfo() failed'']"
| "absence_log MemoryInfoList = [BPLOG ERROR ''minidump.GetMemoryInfoList() failed'']"
| "absence_log CrashpadInfo = []"

definition record_events :: "Minidump \<Rightarrow> record_kind \<Rightarrow> event list" where
  "record_events minidump k =
     (if k = ModuleList then [Call_set_max_modules UINT32_MAX] else []) @
     [Call_Get k] @
     (if present minidump k then [Call_Print_of k] else absence_log k)"

definition full_dump_records :: "record_kind list" where
  "full_dump_records =
     [ThreadList, ThreadNameList, ModuleList, MemoryList, Exception, Assertion, SystemInfo,
      MiscInfo, BreakpadInfo, MemoryInfoList, CrashpadInfo]"

text \<open>
  The dumps in which every raw stream of the catalogue that can be read is shorter than
  \<open>2\<^sup>3\<^sup>1\<close> bytes, so that every precision \<^verbatim>\<open>DumpRawStream\<close> hands to \<open>printf\<close> is
  the number of bytes left.
\<close>

definition short_stream :: "Minidump \<Rightarrow> MDStreamType \<Rightarrow> bool" where
  "short_stream minidump t =
     (case SeekToStreamType minidump t of
        Some (Readable bs) \<Rightarrow> length bs < 2 ^ 31
      | _ \<Rightarrow> True)"

definition short_streams :: "Minidump \<Rightarrow> bool" where
  "short_streams minidump = list_all (short_stream minidump) (map fst raw_catalogue)"


text \<open>
  Which mode a run went through, read off its events: only the full dump prints the
  header; of the two summaries, one asks for the module list and the other for the
  system information.
\<close>

definition full_dump_ran :: "event list \<Rightarrow> bool" where
  "full_dump_ran es = (Call_Print \<in> set es)"

definition module_summary_ran :: "event list \<Rightarrow> bool" where
  "module_summary_ran es = (Call_Get ModuleList \<in> set es \<and> Call_Print \<notin> set es)"

definition platform_summary_ran :: "event list \<Rightarrow> bool" where
  "platform_summary_ran es = (Call_Get SystemInfo \<in> set es \<and> Call_Print \<notin> set es)"

text \<open>The number a decimal numeral stands for, to say what \<open>fmt_u\<close> writes.\<close>

definition decimal_value :: "string \<Rightarrow> nat" where
  "decimal_value s = foldl (\<lambda>a c. 10 * a + (of_char c - 48)) 0 s"

section \<open>Example inputs\<close>

text \<open>
  A dump with every record the full dump counts and none of the others, two modules, a
  Windows version, a command line with one NUL, an environment block of two NULs, an
  empty release block and a process status without a NUL. The variants change one thing
  each.
\<close>

definition example_modules :: "MinidumpModule list" where
  "example_modules =
     [\<lparr>code_file = ''/usr/bin/app'', code_identifier' = ''5F1A'', debug_file = ''app'',
       debug_identifier = ''ABCD0''\<rparr>,
      \<lparr>code_file = ''/lib/libc.so.6'', code_identifier' = ''77E2'', debug_file = ''libc.so.6'',
       debug_identifier = ''12340''\<rparr>]"

definition example_module_list :: MinidumpModuleList where
  "example_module_list =
     \<lparr>module_count = 2,
      GetModuleAtIndex = (\<lambda>i. if i < 2 then Some (example_modules ! i) else None)\<rparr>"

definition example_system_info :: MinidumpSystemInfo where
  "example_system_info =
     \<lparr>system_info = Some \<lparr>major_version = 10, minor_version = 0, build_number = 19041\<rparr>,
      GetOS = ''windows'', GetCPU = ''amd64''\<rparr>"

definition example_streams :: "MDStreamType \<Rightarrow> raw_stream option" where
  "example_streams t =
     (if t = MD_LINUX_CMD_LINE then Some (Readable [CHR ''a'', NUL, CHR ''b''])
      else if t = MD_LINUX_ENVIRON then Some (Readable [NUL, NUL])
      else if t = MD_LINUX_LSB_RELEASE then Some (Readable [])
      else if t = MD_LINUX_PROC_STATUS then Some (Readable ''Name: app'')
      else None)"

definition example_dump :: Minidump where
  "example_dump =
     \<lparr>Read = True, GetThreadList = True, GetThreadNameList = False,
      GetModuleList = (\<lambda>ceiling. Some example_module_list),
      GetMemoryList = True, GetException = False, GetAssertion = False,
      GetSystemInfo = Some example_system_info,
      GetMiscInfo = True, GetBreakpadInfo = False, GetMemoryInfoList = True,
      GetCrashpadInfo = False,
      SeekToStreamType = example_streams\<rparr>"

definition example_dump_no_threads :: Minidump where
  "example_dump_no_threads = example_dump\<lparr>GetThreadList := False\<rparr>"

definition example_dump_unreadable :: Minidump where
  "example_dump_unreadable =
     example_dump\<lparr>SeekToStreamType := example_streams(MD_LINUX_MAPS := Some (Unreadable 4))\<rparr>"



definition max_version :: MDRawSystemInfo where
  "max_version =
     \<lparr>major_version = 4294967295, minor_version = 4294967295, build_number = 4294967295\<rparr>"

definition example_dump_max_version :: Minidump where
  "example_dump_max_version =
     example_dump\<lparr>GetSystemInfo := Some (example_system_info\<lparr>system_info := Some max_version\<rparr>)\<rparr>"

definition example_dump_no_version :: Minidump where
  "example_dump_no_version =
     example_dump\<lparr>GetSystemInfo := Some (example_system_info\<lparr>system_info := None\<rparr>)\<rparr>"

definition example_dump_no_system_info :: Minidump where
  "example_dump_no_system_info = example_dump\<lparr>GetSystemInfo := None\<rparr>"

text \<open>
  An environment in which \<^verbatim>\<open>d.dmp\<close> is the example dump and no other file can be
  read.
\<close>

definition example_env :: env where
  "example_env =
     \<lparr>open_minidump = (\<lambda>path hex. if path = ''d.dmp'' then example_dump
                                   else example_dump\<lparr>Read := False\<rparr>),
      BaseName = (\<lambda>path. path),
      getopt_permutes = True\<rparr>"

text \<open>The same environment with the version of the dump at its largest.\<close>

definition example_env_max_version :: env where
  "example_env_max_version =
     example_env\<lparr>open_minidump := (\<lambda>path hex. example_dump_max_version)\<rparr>"

text \<open>
  A command line of \<open>2\<^sup>3\<^sup>1 + 1\<close> bytes: a NUL and then \<open>2\<^sup>3\<^sup>1\<close> times the letter a. The
  dump that holds it is the example dump otherwise.
\<close>

definition huge_stream :: "char list" where
  "huge_stream = NUL # replicate 2147483648 (CHR ''a'')"

definition example_dump_huge :: Minidump where
  "example_dump_huge =
     example_dump\<lparr>SeekToStreamType := example_streams(MD_LINUX_CMD_LINE := Some (Readable huge_stream))\<rparr>"

definition example_env_huge :: env where
  "example_env_huge = example_env\<lparr>open_minidump := (\<lambda>path hex. example_dump_huge)\<rparr>"

section \<open>The branches of PrintMinidumpDump\<close>

text \<open>
  On a dump that can be read, \<^verbatim>\<open>PrintMinidumpDump\<close> is the call of \<^verbatim>\<open>Read\<close> and then
  one of its three branches: the module summary when \<open>modules_debug_info\<close> is set, else
  the platform summary when \<open>platform_info\<close> is set, else the full dump.
\<close>

lemma PrintMinidumpDump_Read:
  assumes "Read (open_minidump e (minidumpPath options) (hexdump options))"
  shows "PrintMinidumpDump e options =
    (let minidump = open_minidump e (minidumpPath options) (hexdump options);
         r = (if modules_debug_info options then ModulesDebugInfo minidump
              else if platform_info options then PlatformInfo minidump
              else FullDump minidump)
     in (Call_Read # fst r, snd r))"
  using assms by (simp add: PrintMinidumpDump_def Let_def split: prod.splits)

section \<open>Properties of the raw stream renderer\<close>

subsection \<open>Below 2 GiB the loop writes every byte, and the marker for every NUL\<close>

lemma memchr_None_iff: "n = length s \<Longrightarrow> memchr s c n = None \<longleftrightarrow> c \<notin> set s"
  by (induction s arbitrary: n) auto

lemma memchr_Some:
  "n = length s \<Longrightarrow> memchr s c n = Some k \<Longrightarrow>
   k < length s \<and> s ! k = c \<and> c \<notin> set (take k s)"
  by (induction s arbitrary: k n) (auto split: if_splits)

lemma memchr_head: "0 < n \<Longrightarrow> memchr (c # s) c n = Some 0"
  by (cases n) simp_all

lemma sint_of_nat_small: "n < 2 ^ 31 \<Longrightarrow> sint (of_nat n :: uint32_t) = int n"
  by (simp add: signed_of_nat signed_take_bit_int_eq_self)

lemma printf_prec_s_small:
  "n = length s \<Longrightarrow> n < 2 ^ 31 \<Longrightarrow>
   printf_prec_s (of_nat n) s = Inr (takeWhile (\<lambda>c. c \<noteq> NUL) s)"
  by (simp add: printf_prec_s_def sint_of_nat_small)

lemma takeWhile_upto: "c \<notin> set xs \<Longrightarrow> takeWhile (\<lambda>x. x \<noteq> c) (xs @ c # ys) = xs"
  by (induction xs) auto

lemma render_no_NUL: "NUL \<notin> set s \<Longrightarrow> render s = s"
  by (induction s) (auto simp: render_def)

lemma render_append: "render (xs @ ys) = render xs @ render ys"
  by (simp add: render_def)

lemma render_NUL: "render (NUL # s) = terminator_marker @ render s"
  by (simp add: render_def)

lemma render_NUL_run: "render (replicate k NUL) = concat (replicate k terminator_marker)"
  by (induction k) (simp_all add: render_def)

lemma DumpRawStream_loop_unfold:
  assumes "off < length contents" and "length contents < 2 ^ 31"
  shows "DumpRawStream_loop contents (length contents) off =
        (case memchr (drop off contents) NUL (length contents - off) of
           None \<Rightarrow> ([printf (takeWhile (\<lambda>c. c \<noteq> NUL) (drop off contents))], Inr ())
         | Some k \<Rightarrow>
             (printf (takeWhile (\<lambda>c. c \<noteq> NUL) (drop off contents)) #
              printf terminator_marker #
              fst (DumpRawStream_loop contents (length contents) (off + k + 1)),
              snd (DumpRawStream_loop contents (length contents) (off + k + 1))))"
proof -
  have "printf_prec_s (of_nat (length contents - off)) (drop off contents) =
      Inr (takeWhile (\<lambda>c. c \<noteq> NUL) (drop off contents))"
    using assms by (intro printf_prec_s_small) simp_all
  then show ?thesis
    using assms(1)
    by (subst DumpRawStream_loop.simps)
       (simp add: Let_def terminator_marker_def split: option.split prod.split)
qed

lemma DumpRawStream_loop_text:
  "off \<le> length contents \<Longrightarrow> length contents < 2 ^ 31 \<Longrightarrow>
   snd (DumpRawStream_loop contents (length contents) off) = Inr () \<and>
   text_on stdout (fst (DumpRawStream_loop contents (length contents) off)) =
     render (drop off contents)"
proof (induction "length contents - off" arbitrary: off rule: less_induct)
  case less
  define s where "s = drop off contents"
  define n where "n = length contents - off"
  have n: "n = length s" by (simp add: s_def n_def)
  show ?case
  proof (cases "off < length contents")
    case False
    then show ?thesis using less.prems by (simp add: DumpRawStream_loop.simps render_def)
  next
    case True
    note unfold = DumpRawStream_loop_unfold[OF True less.prems(2), folded s_def n_def]
    show ?thesis
    proof (cases "memchr s NUL n")
      case None
      then have "NUL \<notin> set s" using memchr_None_iff[OF n] by simp
      then have "takeWhile (\<lambda>c. c \<noteq> NUL) s = s" and "render s = s"
        by (auto simp: render_no_NUL)
      then show ?thesis
        unfolding unfold using None by (simp add: s_def)
    next
      case (Some k)
      from memchr_Some[OF n Some] have k: "k < length s" "s ! k = NUL" "NUL \<notin> set (take k s)"
        by auto
      have split: "s = take k s @ NUL # drop (Suc k) s"
        using k(1,2) by (metis id_take_nth_drop)
      have tw: "takeWhile (\<lambda>c. c \<noteq> NUL) s = take k s"
        using takeWhile_upto[OF k(3), of "drop (Suc k) s"] split by simp
      have r: "render s = take k s @ terminator_marker @ render (drop (Suc k) s)"
        by (subst split) (simp add: render_append render_NUL render_no_NUL k(3))
      have d: "drop (Suc k) s = drop (off + k + 1) contents"
        by (simp add: s_def add.commute)
      have IH: "snd (DumpRawStream_loop contents (length contents) (off + k + 1)) = Inr () \<and>
                text_on stdout (fst (DumpRawStream_loop contents (length contents) (off + k + 1)))
                = render (drop (off + k + 1) contents)"
        using k(1) True n less.prems(2) by (intro less.hyps) (auto simp: n_def)
      show ?thesis
        unfolding unfold using Some IH
        by (simp add: tw r d s_def[symmetric])
    qed
  qed
qed

lemma text_on_append: "text_on fp (xs @ ys) = text_on fp xs @ text_on fp ys"
  by (induction fp xs rule: text_on.induct) auto

text \<open>What a readable stream that is not empty and shorter than 2 GiB comes out as.\<close>

lemma DumpRawStream_readable_text:
  assumes "SeekToStreamType minidump t = Some (Readable b)" and "b \<noteq> []"
    and "length b < 2 ^ 31"
  shows "text_on stdout (fst (DumpRawStream minidump t name errors)) =
           stream_header name @ render b @ ''\<newline>\<newline>''"
    and "snd (DumpRawStream minidump t name errors) = Inr errors"
  using assms DumpRawStream_loop_text[of 0 b]
  by (auto simp: DumpRawStream_def Let_def text_on_append stream_header_def
      split: prod.splits sum.splits)

lemma one_NUL_split:
  assumes "i < length b" "b ! i = NUL" "\<forall>j < length b. j \<noteq> i \<longrightarrow> b ! j \<noteq> NUL"
  shows "render b = take i b @ terminator_marker @ drop (Suc i) b"
proof -
  have b: "b = take i b @ NUL # drop (Suc i) b"
    using assms(1,2) by (metis id_take_nth_drop)
  have "NUL \<notin> set (take i b)"
    using assms by (auto simp: in_set_conv_nth)
  moreover have "NUL \<notin> set (drop (Suc i) b)"
    using assms by (auto simp: in_set_conv_nth)
  ultimately show ?thesis
    by (subst b) (simp add: render_append render_NUL render_no_NUL)
qed

lemma NUL_run_events:
  "off \<le> k \<Longrightarrow> k < 2 ^ 31 \<Longrightarrow>
   DumpRawStream_loop (replicate k NUL) k off =
     (concat (replicate (k - off) [printf [], printf terminator_marker]), Inr ())"
proof (induction "k - off" arbitrary: off)
  case 0
  then show ?case by (simp add: DumpRawStream_loop.simps)
next
  case (Suc d)
  then have lt: "off < k" by simp
  have m: "memchr (replicate (k - off) NUL) NUL (k - off) = Some 0"
    using lt by (cases "k - off") auto
  have p: "takeWhile (\<lambda>c. c \<noteq> NUL) (replicate (k - off) NUL) = []"
    using lt by (cases "k - off") auto
  have IH: "DumpRawStream_loop (replicate k NUL) k (Suc off) =
     (concat (replicate (k - Suc off) [printf [], printf terminator_marker]), Inr ())"
    using Suc by (intro Suc.hyps) auto
  have "k - off = Suc (k - Suc off)" using lt by simp
  then show ?case
    using DumpRawStream_loop_unfold[of off "replicate k NUL"] lt m p IH Suc.prems(2)
    by simp
qed

subsection \<open>From 2 GiB on the loop can read past the stream\<close>

lemma huge_stream_facts:
  "length huge_stream = 2147483649" "huge_stream ! 0 = NUL"
  "NUL \<notin> set (drop 1 huge_stream)"
  by (simp_all add: huge_stream_def NUL_def)

lemma DumpRawStream_loop_huge:
  "DumpRawStream_loop huge_stream 2147483649 0 =
     ([printf [], printf terminator_marker], Inl BufferOverread)"
proof -
  have first: "printf_prec_s (of_nat (2147483649 - 0)) (drop 0 huge_stream) = Inr []"
    by (simp add: printf_prec_s_def huge_stream_def)
  have m: "memchr (drop 0 huge_stream) NUL (2147483649 - 0) = Some 0"
    by (simp add: huge_stream_def memchr_head)
  have second: "printf_prec_s (of_nat (2147483649 - 1)) (drop 1 huge_stream) = Inl BufferOverread"
    by (simp add: printf_prec_s_def huge_stream_def NUL_def)
  have next_turn: "DumpRawStream_loop huge_stream 2147483649 1 = ([], Inl BufferOverread)"
    using second by (subst DumpRawStream_loop.simps) (simp add: Let_def)
  show ?thesis
    using first m next_turn
    by (subst DumpRawStream_loop.simps) (simp add: Let_def terminator_marker_def)
qed

lemma DumpRawStream_huge:
  "DumpRawStream example_dump_huge MD_LINUX_CMD_LINE ''MD_LINUX_CMD_LINE'' errors =
     ([Call_SeekToStreamType MD_LINUX_CMD_LINE, printf ''Stream MD_LINUX_CMD_LINE:\<newline>'',
       Call_ReadBytes MD_LINUX_CMD_LINE 2147483649, printf [], printf terminator_marker],
      Inl BufferOverread)"
  using DumpRawStream_loop_huge huge_stream_facts(1)
  by (simp add: DumpRawStream_def example_dump_huge_def Let_def)

text \<open>
  Claim C3 does not hold of the code. The claim is about every stream with exactly one
  NUL. \<open>huge_stream\<close> is one, of \<open>2\<^sup>3\<^sup>1 + 1\<close> bytes with its NUL at position 0. The first
  turn of the loop prints the empty span and the marker. In the second turn
  \<open>2\<^sup>3\<^sup>1\<close> bytes are left; the source hands that number to \<open>printf\<close> as a
  \<^verbatim>\<open>uint32_t\<close>, \<open>printf\<close> reads it as the \<^verbatim>\<open>int\<close> \<open>-2\<^sup>3\<^sup>1\<close>, a negative precision
  counts as none, and since no NUL is left in the stream \<open>printf\<close> reads past its end:
  the second span and the two closing line breaks that the claim describes are not what
  the run is bound to write.
\<close>

theorem DumpRawStream_overread:
  "SeekToStreamType example_dump_huge MD_LINUX_CMD_LINE = Some (Readable huge_stream) \<and>
   length huge_stream = 2147483649 \<and> huge_stream ! 0 = NUL \<and>
   NUL \<notin> set (drop 1 huge_stream) \<and>
   sint (of_nat (length huge_stream - 1) :: uint32_t) = - 2147483648 \<and>
   DumpRawStream example_dump_huge MD_LINUX_CMD_LINE ''MD_LINUX_CMD_LINE'' 0 =
     ([Call_SeekToStreamType MD_LINUX_CMD_LINE, printf ''Stream MD_LINUX_CMD_LINE:\<newline>'',
       Call_ReadBytes MD_LINUX_CMD_LINE 2147483649, printf [], printf terminator_marker],
      Inl BufferOverread)"
  using DumpRawStream_huge[of 0] huge_stream_facts
  by (simp add: example_dump_huge_def)

text \<open>
  The rendering of any readable stream that is not empty and is shorter than \<open>2\<^sup>3\<^sup>1\<close>
  bytes: the header line, every byte of the stream in its place with the marker for each
  NUL, and two line breaks; the error counter is left as it was. A stream without a NUL
  is written as it is, with no marker.
\<close>

theorem DumpRawStream_render:
  "(SeekToStreamType minidump t = Some (Readable b) \<and> b \<noteq> [] \<and> length b < 2 ^ 31 \<longrightarrow>
      text_on stdout (fst (DumpRawStream minidump t name errors)) =
        stream_header name @ render b @ ''\<newline>\<newline>'' \<and>
      snd (DumpRawStream minidump t name errors) = Inr errors) \<and>
   (SeekToStreamType minidump t' = Some (Readable b') \<and> b' \<noteq> [] \<and> length b' < 2 ^ 31 \<and>
    NUL \<notin> set b' \<longrightarrow>
      DumpRawStream minidump t' name' errors =
        ([Call_SeekToStreamType t', printf (stream_header name'),
          Call_ReadBytes t' (length b'), printf b', printf ''\<newline>\<newline>''], Inr errors)) \<and>
   render (xs @ NUL # ys) = render xs @ terminator_marker @ render ys \<and>
   (NUL \<notin> set zs \<longrightarrow> render zs = zs)"
proof (intro conjI impI)
  assume a: "SeekToStreamType minidump t = Some (Readable b) \<and> b \<noteq> [] \<and> length b < 2 ^ 31"
  then show "text_on stdout (fst (DumpRawStream minidump t name errors)) =
        stream_header name @ render b @ ''\<newline>\<newline>''"
    by (simp add: DumpRawStream_readable_text(1))
  from a show "snd (DumpRawStream minidump t name errors) = Inr errors"
    by (simp add: DumpRawStream_readable_text(2))
next
  assume a: "SeekToStreamType minidump t' = Some (Readable b') \<and> b' \<noteq> [] \<and>
    length b' < 2 ^ 31 \<and> NUL \<notin> set b'"
  then have m: "memchr (drop 0 b') NUL (length b' - 0) = None"
    by (simp add: memchr_None_iff)
  have p: "takeWhile (\<lambda>c. c \<noteq> NUL) (drop 0 b') = b'"
    using a by auto
  have "DumpRawStream_loop b' (length b') 0 = ([printf b'], Inr ())"
    using a DumpRawStream_loop_unfold[of 0 b'] m p by (simp del: drop_0 diff_zero)
  with a show "DumpRawStream minidump t' name' errors =
        ([Call_SeekToStreamType t', printf (stream_header name'),
          Call_ReadBytes t' (length b'), printf b', printf ''\<newline>\<newline>''], Inr errors)"
    by (simp add: DumpRawStream_def Let_def stream_header_def)
next
  show "render (xs @ NUL # ys) = render xs @ terminator_marker @ render ys"
    by (simp add: render_append render_NUL)
next
  assume "NUL \<notin> set zs"
  then show "render zs = zs" by (rule render_no_NUL)
qed

theorem DumpRawStream_render_witness:
  "text_on stdout (fst (DumpRawStream example_dump MD_LINUX_CMD_LINE ''MD_LINUX_CMD_LINE'' 0)) =
     ''Stream MD_LINUX_CMD_LINE:\<newline>a'' @ [CHR 0x5C] @ ''0\<newline>b\<newline>\<newline>'' \<and>
   DumpRawStream example_dump MD_LINUX_PROC_STATUS ''MD_LINUX_PROC_STATUS'' 0 =
     ([Call_SeekToStreamType MD_LINUX_PROC_STATUS, printf ''Stream MD_LINUX_PROC_STATUS:\<newline>'',
       Call_ReadBytes MD_LINUX_PROC_STATUS 9, printf ''Name: app'', printf ''\<newline>\<newline>''], Inr 0)"
proof -
  have 1: "SeekToStreamType example_dump MD_LINUX_CMD_LINE = Some (Readable [CHR ''a'', NUL, CHR ''b''])
      \<and> [CHR ''a'', NUL, CHR ''b''] \<noteq> [] \<and> length [CHR ''a'', NUL, CHR ''b''] < 2 ^ 31"
    by (simp add: example_dump_def example_streams_def)
  have 2: "SeekToStreamType example_dump MD_LINUX_PROC_STATUS = Some (Readable ''Name: app'') \<and>
      ''Name: app'' \<noteq> [] \<and> length ''Name: app'' < 2 ^ 31 \<and> NUL \<notin> set ''Name: app''"
    by (simp add: example_dump_def example_streams_def NUL_def)
  show ?thesis
    using DumpRawStream_render [of example_dump MD_LINUX_CMD_LINE "[CHR ''a'', NUL, CHR ''b'']"
        "''MD_LINUX_CMD_LINE''" 0 MD_LINUX_PROC_STATUS "''Name: app''" "''MD_LINUX_PROC_STATUS''"] 1 2
    by (simp add: stream_header_def render_def terminator_marker_def NUL_def)
qed

text \<open>
  For streams shorter than \<open>2\<^sup>3\<^sup>1\<close> bytes the rendering is the one of Claim C3. A
  readable stream \<open>b\<close> with exactly one NUL, at position \<open>i\<close>, is written as the header
  line, the bytes before the NUL, the marker, the bytes after the NUL with no marker after
  them, and two line breaks; the error counter is left as it was. NULs that follow one
  another are not merged: a stream of \<open>k\<close> NULs is written as \<open>k\<close> times an empty span and
  a marker, and a run of \<open>n\<close> NULs anywhere in a stream is written as \<open>n\<close> markers between
  the renderings of what is before and after the run.
\<close>

theorem DumpRawStream_NUL_spans:
  "(SeekToStreamType minidump t = Some (Readable b) \<and> length b < 2 ^ 31 \<and>
    i < length b \<and> b ! i = NUL \<and> (\<forall>j < length b. j \<noteq> i \<longrightarrow> b ! j \<noteq> NUL) \<longrightarrow>
      text_on stdout (fst (DumpRawStream minidump t name errors)) =
        stream_header name @ take i b @ terminator_marker @ drop (Suc i) b @ ''\<newline>\<newline>'' \<and>
      snd (DumpRawStream minidump t name errors) = Inr errors) \<and>
   (SeekToStreamType minidump t' = Some (Readable (replicate k NUL)) \<and> 0 < k \<and> k < 2 ^ 31 \<longrightarrow>
      DumpRawStream minidump t' name' errors =
        ([Call_SeekToStreamType t', printf (stream_header name'), Call_ReadBytes t' k] @
         concat (replicate k [printf [], printf terminator_marker]) @ [printf ''\<newline>\<newline>''],
         Inr errors)) \<and>
   (SeekToStreamType minidump t'' = Some (Readable (xs @ replicate n NUL @ ys)) \<and> 0 < n \<and>
    length (xs @ replicate n NUL @ ys) < 2 ^ 31 \<longrightarrow>
      text_on stdout (fst (DumpRawStream minidump t'' name'' errors)) =
        stream_header name'' @ render xs @ concat (replicate n terminator_marker) @ render ys @
        ''\<newline>\<newline>'')"
proof (intro conjI impI)
  assume a: "SeekToStreamType minidump t = Some (Readable b) \<and> length b < 2 ^ 31 \<and>
    i < length b \<and> b ! i = NUL \<and> (\<forall>j < length b. j \<noteq> i \<longrightarrow> b ! j \<noteq> NUL)"
  then have ne: "b \<noteq> []" by auto
  from a have r: "render b = take i b @ terminator_marker @ drop (Suc i) b"
    by (intro one_NUL_split) auto
  from a ne show "text_on stdout (fst (DumpRawStream minidump t name errors)) =
        stream_header name @ take i b @ terminator_marker @ drop (Suc i) b @ ''\<newline>\<newline>''"
    by (simp add: DumpRawStream_readable_text(1) r)
  from a ne show "snd (DumpRawStream minidump t name errors) = Inr errors"
    by (simp add: DumpRawStream_readable_text(2))
next
  assume a: "SeekToStreamType minidump t' = Some (Readable (replicate k NUL)) \<and> 0 < k \<and>
    k < 2 ^ 31"
  then show "DumpRawStream minidump t' name' errors =
        ([Call_SeekToStreamType t', printf (stream_header name'), Call_ReadBytes t' k] @
         concat (replicate k [printf [], printf terminator_marker]) @ [printf ''\<newline>\<newline>''],
         Inr errors)"
    using NUL_run_events[of 0 k]
    by (simp add: DumpRawStream_def Let_def stream_header_def)
next
  assume a: "SeekToStreamType minidump t'' = Some (Readable (xs @ replicate n NUL @ ys)) \<and>
    0 < n \<and> length (xs @ replicate n NUL @ ys) < 2 ^ 31"
  then have ne: "xs @ replicate n NUL @ ys \<noteq> []" by auto
  from a ne show "text_on stdout (fst (DumpRawStream minidump t'' name'' errors)) =
        stream_header name'' @ render xs @ concat (replicate n terminator_marker) @ render ys @
        ''\<newline>\<newline>''"
    by (simp add: DumpRawStream_readable_text(1) render_append render_NUL_run)
qed

theorem DumpRawStream_NUL_spans_witness:
  "text_on stdout (fst (DumpRawStream example_dump MD_LINUX_CMD_LINE ''MD_LINUX_CMD_LINE'' 0)) =
     ''Stream MD_LINUX_CMD_LINE:\<newline>a'' @ [CHR 0x5C] @ ''0\<newline>b\<newline>\<newline>'' \<and>
   snd (DumpRawStream example_dump MD_LINUX_CMD_LINE ''MD_LINUX_CMD_LINE'' 0) = Inr 0 \<and>
   DumpRawStream example_dump MD_LINUX_ENVIRON ''MD_LINUX_ENVIRON'' 0 =
     ([Call_SeekToStreamType MD_LINUX_ENVIRON, printf ''Stream MD_LINUX_ENVIRON:\<newline>'',
       Call_ReadBytes MD_LINUX_ENVIRON 2,
       printf [], printf ([CHR 0x5C] @ ''0\<newline>''), printf [], printf ([CHR 0x5C] @ ''0\<newline>''),
       printf ''\<newline>\<newline>''], Inr 0) \<and>
   text_on stdout (fst (DumpRawStream example_dump MD_LINUX_ENVIRON ''MD_LINUX_ENVIRON'' 0)) =
     ''Stream MD_LINUX_ENVIRON:\<newline>'' @ [CHR 0x5C] @ ''0\<newline>'' @ [CHR 0x5C] @ ''0\<newline>\<newline>\<newline>''"
proof -
  have one: "\<forall>j < length [CHR ''a'', NUL, CHR ''b'']. j \<noteq> 1 \<longrightarrow> [CHR ''a'', NUL, CHR ''b''] ! j \<noteq> NUL"
    by (simp add: NUL_def less_Suc_eq all_conj_distrib)
  have two: "replicate 2 x = [x, x]" for x :: 'a
    by (simp add: numeral_2_eq_2)
  have small: "length [CHR ''a'', NUL, CHR ''b''] < 2 ^ 31" "(2 :: nat) < 2 ^ 31"
    "length ([] @ replicate 2 NUL @ []) < 2 ^ 31"
    by simp_all
  show ?thesis
    using DumpRawStream_NUL_spans [of example_dump MD_LINUX_CMD_LINE "[CHR ''a'', NUL, CHR ''b'']" 1
        "''MD_LINUX_CMD_LINE''" 0 MD_LINUX_ENVIRON 2 "''MD_LINUX_ENVIRON''"
        MD_LINUX_ENVIRON "[]" 2 "[]" "''MD_LINUX_ENVIRON''"] one small
    by (simp add: example_dump_def example_streams_def stream_header_def terminator_marker_def
        two render_def)
qed

text \<open>
  Claim C7. A stream that is located with length zero comes out as the header line and
  one empty line, and nothing else happens: \<^verbatim>\<open>ReadBytes\<close> is not called, the loop over
  the bytes is not entered, and the error counter is left as it was.
\<close>

theorem DumpRawStream_zero_length:
  "SeekToStreamType minidump t = Some st \<Longrightarrow> stream_length st = 0 \<Longrightarrow>
   DumpRawStream minidump t name errors =
     ([Call_SeekToStreamType t, printf (stream_header name), printf ''\<newline>''], Inr errors)"
  by (simp add: DumpRawStream_def stream_header_def)

theorem DumpRawStream_zero_length_witness:
  "DumpRawStream example_dump MD_LINUX_LSB_RELEASE ''MD_LINUX_LSB_RELEASE'' 0 =
     ([Call_SeekToStreamType MD_LINUX_LSB_RELEASE, printf ''Stream MD_LINUX_LSB_RELEASE:\<newline>'',
       printf ''\<newline>''], Inr 0)"
  using DumpRawStream_zero_length [of example_dump MD_LINUX_LSB_RELEASE "Readable []"
      "''MD_LINUX_LSB_RELEASE''" 0]
  by (simp add: example_dump_def example_streams_def stream_header_def)

text \<open>
  Claim C4. The raw streams of the full dump are the six of \<open>raw_catalogue\<close>, each
  handled by one call of \<^verbatim>\<open>DumpRawStream\<close>. A stream that is not in the dump costs
  nothing: the call only asks for it, prints nothing, logs nothing and leaves the error
  counter as it was. A stream that is located and whose read fails (the read is only
  tried on a stream that is not empty, see C7) adds exactly one to the counter and logs
  an error, after the header line.
\<close>

theorem DumpRawStream_absent_or_unreadable:
  "drop 11 (full_dump_steps minidump) =
     map (\<lambda>(t, name). DumpRawStream minidump t name) raw_catalogue \<and>
   (SeekToStreamType minidump t = None \<longrightarrow>
      DumpRawStream minidump t name errors = ([Call_SeekToStreamType t], Inr errors)) \<and>
   (SeekToStreamType minidump t' = Some st \<and> stream_length st \<noteq> 0 \<and> ReadBytes st = None \<longrightarrow>
      DumpRawStream minidump t' name' errors =
        ([Call_SeekToStreamType t', printf (stream_header name'),
          Call_ReadBytes t' (stream_length st), BPLOG ERROR ''minidump.ReadBytes failed''],
         Inr (errors + 1)))"
  by (simp add: DumpRawStream_def stream_header_def Let_def full_dump_steps_def raw_catalogue_def)

theorem DumpRawStream_absent_or_unreadable_witness:
  "DumpRawStream example_dump_unreadable MD_LINUX_CPU_INFO ''MD_LINUX_CPU_INFO'' 0 =
     ([Call_SeekToStreamType MD_LINUX_CPU_INFO], Inr 0) \<and>
   DumpRawStream example_dump_unreadable MD_LINUX_MAPS ''MD_LINUX_MAPS'' 0 =
     ([Call_SeekToStreamType MD_LINUX_MAPS, printf ''Stream MD_LINUX_MAPS:\<newline>'',
       Call_ReadBytes MD_LINUX_MAPS 4, BPLOG ERROR ''minidump.ReadBytes failed''], Inr 1)"
  using DumpRawStream_absent_or_unreadable [of example_dump_unreadable MD_LINUX_CPU_INFO
      "''MD_LINUX_CPU_INFO''" 0 MD_LINUX_MAPS "Unreadable 4" "''MD_LINUX_MAPS''"]
  by (simp add: example_dump_unreadable_def example_dump_def example_streams_def stream_header_def)

section \<open>Properties of the full dump\<close>

lemma run_steps_Inr:
  "f errors = (es, Inr errors') \<Longrightarrow>
   run_steps (f # fs) errors = (es @ fst (run_steps fs errors'), snd (run_steps fs errors'))"
  by (simp split: prod.splits)

lemma run_steps_Inl:
  "f errors = (es, Inl x) \<Longrightarrow> run_steps (f # fs) errors = (es, Inl x)"
  by simp

lemma DumpRawStream_events:
  "fst (DumpRawStream minidump t name errors) = fst (DumpRawStream minidump t name 0)"
  by (simp add: DumpRawStream_def Let_def split: option.splits prod.splits sum.splits)

lemma DumpRawStream_short:
  assumes "short_stream minidump t"
  shows "DumpRawStream minidump t name errors =
     (fst (DumpRawStream minidump t name 0), Inr (errors + of_bool (read_fails minidump t)))"
proof (cases "SeekToStreamType minidump t")
  case None
  then show ?thesis by (simp add: DumpRawStream_def read_fails_def)
next
  case (Some st)
  show ?thesis
  proof (cases st)
    case (Unreadable n)
    with Some show ?thesis by (simp add: DumpRawStream_def read_fails_def Let_def)
  next
    case (Readable bs)
    then have len: "length bs < 2 ^ 31"
      using assms Some by (simp add: short_stream_def)
    have "snd (DumpRawStream_loop bs (length bs) 0) = Inr ()"
      using DumpRawStream_loop_text[of 0 bs] len by simp
    then obtain es where "DumpRawStream_loop bs (length bs) 0 = (es, Inr ())"
      by (metis prod.collapse)
    then show ?thesis
      using Some Readable
      by (simp add: DumpRawStream_def read_fails_def Let_def)
  qed
qed

lemma step_eq:
  "ThreadList_step m e = (record_events m ThreadList, Inr (e + of_bool (\<not> present m ThreadList)))"
  "ThreadNameList_step m e = (record_events m ThreadNameList, Inr e)"
  "ModuleList_step m e = (record_events m ModuleList, Inr (e + of_bool (\<not> present m ModuleList)))"
  "MemoryList_step m e = (record_events m MemoryList, Inr (e + of_bool (\<not> present m MemoryList)))"
  "Exception_step m e = (record_events m Exception, Inr e)"
  "Assertion_step m e = (record_events m Assertion, Inr e)"
  "SystemInfo_step m e = (record_events m SystemInfo, Inr (e + of_bool (\<not> present m SystemInfo)))"
  "MiscInfo_step m e = (record_events m MiscInfo, Inr (e + of_bool (\<not> present m MiscInfo)))"
  "BreakpadInfo_step m e = (record_events m BreakpadInfo, Inr e)"
  "MemoryInfoList_step m e =
     (record_events m MemoryInfoList, Inr (e + of_bool (\<not> present m MemoryInfoList)))"
  "CrashpadInfo_step m e = (record_events m CrashpadInfo, Inr e)"
  by (simp_all add: ThreadList_step_def ThreadNameList_step_def ModuleList_step_def
      MemoryList_step_def Exception_step_def Assertion_step_def SystemInfo_step_def
      MiscInfo_step_def BreakpadInfo_step_def MemoryInfoList_step_def CrashpadInfo_step_def
      record_events_def split: option.splits)

lemma count_of_bool: "(\<Sum>x\<leftarrow>xs. of_bool (P x)) = int (length (filter P xs))"
  by (induction xs) auto

lemma expected_tally_sum:
  "expected_tally m =
     of_bool (\<not> present m ThreadList) + of_bool (\<not> present m ModuleList) +
     of_bool (\<not> present m MemoryList) + of_bool (\<not> present m SystemInfo) +
     of_bool (\<not> present m MiscInfo) + of_bool (\<not> present m MemoryInfoList) +
     of_bool (read_fails m MD_LINUX_CMD_LINE) + of_bool (read_fails m MD_LINUX_ENVIRON) +
     of_bool (read_fails m MD_LINUX_LSB_RELEASE) + of_bool (read_fails m MD_LINUX_PROC_STATUS) +
     of_bool (read_fails m MD_LINUX_CPU_INFO) + of_bool (read_fails m MD_LINUX_MAPS)"
  unfolding expected_tally_def count_of_bool[symmetric]
  by (simp only: required_records_def raw_catalogue_def list.map sum_list.Cons sum_list.Nil
        fst_conv add_0_right add.assoc)

lemma records_run:
  "run_steps (full_dump_steps m) 0 =
     (concat (map (record_events m) full_dump_records) @
      fst (run_steps (drop 11 (full_dump_steps m))
            (of_bool (\<not> present m ThreadList) + of_bool (\<not> present m ModuleList) +
             of_bool (\<not> present m MemoryList) + of_bool (\<not> present m SystemInfo) +
             of_bool (\<not> present m MiscInfo) + of_bool (\<not> present m MemoryInfoList))),
      snd (run_steps (drop 11 (full_dump_steps m))
            (of_bool (\<not> present m ThreadList) + of_bool (\<not> present m ModuleList) +
             of_bool (\<not> present m MemoryList) + of_bool (\<not> present m SystemInfo) +
             of_bool (\<not> present m MiscInfo) + of_bool (\<not> present m MemoryInfoList))))"
  unfolding full_dump_steps_def full_dump_records_def
  by (simp add: run_steps_Inr[OF step_eq(1)] run_steps_Inr[OF step_eq(2)]
      run_steps_Inr[OF step_eq(3)] run_steps_Inr[OF step_eq(4)] run_steps_Inr[OF step_eq(5)]
      run_steps_Inr[OF step_eq(6)] run_steps_Inr[OF step_eq(7)] run_steps_Inr[OF step_eq(8)]
      run_steps_Inr[OF step_eq(9)] run_steps_Inr[OF step_eq(10)] run_steps_Inr[OF step_eq(11)]
      del: run_steps.simps)

lemma streams_run:
  assumes "short_streams m"
  shows "run_steps (drop 11 (full_dump_steps m)) e =
     (concat (map (\<lambda>(t, name). fst (DumpRawStream m t name 0)) raw_catalogue),
      Inr (e + of_bool (read_fails m MD_LINUX_CMD_LINE) + of_bool (read_fails m MD_LINUX_ENVIRON) +
           of_bool (read_fails m MD_LINUX_LSB_RELEASE) +
           of_bool (read_fails m MD_LINUX_PROC_STATUS) +
           of_bool (read_fails m MD_LINUX_CPU_INFO) + of_bool (read_fails m MD_LINUX_MAPS)))"
proof -
  have s: "short_stream m MD_LINUX_CMD_LINE" "short_stream m MD_LINUX_ENVIRON"
    "short_stream m MD_LINUX_LSB_RELEASE" "short_stream m MD_LINUX_PROC_STATUS"
    "short_stream m MD_LINUX_CPU_INFO" "short_stream m MD_LINUX_MAPS"
    using assms by (simp_all add: short_streams_def raw_catalogue_def)
  show ?thesis
    unfolding full_dump_steps_def raw_catalogue_def
    by (simp add: run_steps_Inr[OF DumpRawStream_short[OF s(1)]]
        run_steps_Inr[OF DumpRawStream_short[OF s(2)]]
        run_steps_Inr[OF DumpRawStream_short[OF s(3)]]
        run_steps_Inr[OF DumpRawStream_short[OF s(4)]]
        run_steps_Inr[OF DumpRawStream_short[OF s(5)]]
        run_steps_Inr[OF DumpRawStream_short[OF s(6)]]
        del: run_steps.simps(2))
qed

lemma FullDump_run_short:
  assumes "short_streams m"
  shows "FullDump_run m =
     (Call_Print # concat (map (record_events m) full_dump_records) @
      concat (map (\<lambda>(t, name). fst (DumpRawStream m t name 0)) raw_catalogue),
      Inr (expected_tally m))"
  unfolding FullDump_run_def records_run streams_run[OF assms] expected_tally_sum
  by (simp add: add.assoc)

lemma example_dump_huge_records:
  "concat (map (record_events example_dump_huge) full_dump_records) =
     [Call_Get ThreadList, Call_Print_of ThreadList,
      Call_Get ThreadNameList,
      Call_set_max_modules UINT32_MAX, Call_Get ModuleList, Call_Print_of ModuleList,
      Call_Get MemoryList, Call_Print_of MemoryList,
      Call_Get Exception, BPLOG INFO ''minidump.GetException() failed'',
      Call_Get Assertion, BPLOG INFO ''minidump.GetAssertion() failed'',
      Call_Get SystemInfo, Call_Print_of SystemInfo,
      Call_Get MiscInfo, Call_Print_of MiscInfo,
      Call_Get BreakpadInfo, BPLOG INFO ''minidump.GetBreakpadInfo() failed'',
      Call_Get MemoryInfoList, Call_Print_of MemoryInfoList,
      Call_Get CrashpadInfo]"
  by (simp add: full_dump_records_def record_events_def example_dump_huge_def example_dump_def)

lemma FullDump_huge:
  "FullDump example_dump_huge =
     (Call_Print # concat (map (record_events example_dump_huge) full_dump_records) @
      [Call_SeekToStreamType MD_LINUX_CMD_LINE, printf ''Stream MD_LINUX_CMD_LINE:\<newline>'',
       Call_ReadBytes MD_LINUX_CMD_LINE 2147483649, printf [], printf terminator_marker],
      Inl BufferOverread)"
proof -
  have "run_steps (drop 11 (full_dump_steps example_dump_huge)) e =
      ([Call_SeekToStreamType MD_LINUX_CMD_LINE, printf ''Stream MD_LINUX_CMD_LINE:\<newline>'',
        Call_ReadBytes MD_LINUX_CMD_LINE 2147483649, printf [], printf terminator_marker],
       Inl BufferOverread)" for e
    unfolding full_dump_steps_def
    by (simp add: run_steps_Inl[OF DumpRawStream_huge] del: run_steps.simps(2))
  then show ?thesis
    unfolding FullDump_def FullDump_run_def records_run by simp
qed

text \<open>
  Claim C1 does not hold of the code. The claim is about every dump. \<open>example_dump_huge\<close>
  has all six counted records and no raw stream whose read fails, so the claim has the
  full dump go through all its steps and return true. Its command-line stream is
  \<open>huge_stream\<close>, on which \<^verbatim>\<open>DumpRawStream\<close> reads past the end of the stream (see
  C3): the full dump gets as far as the first of the six raw streams and has no defined
  result from there on. The other five raw streams are not reached and no value is
  returned, neither by the full dump nor by the run of the tool on the dump.
\<close>

theorem FullDump_overread:
  "filter (\<lambda>k. \<not> present example_dump_huge k) required_records = [] \<and>
   filter (read_fails example_dump_huge) (map fst raw_catalogue) = [] \<and>
   FullDump example_dump_huge =
     ([Call_Print,
       Call_Get ThreadList, Call_Print_of ThreadList,
       Call_Get ThreadNameList,
       Call_set_max_modules UINT32_MAX, Call_Get ModuleList, Call_Print_of ModuleList,
       Call_Get MemoryList, Call_Print_of MemoryList,
       Call_Get Exception, BPLOG INFO ''minidump.GetException() failed'',
       Call_Get Assertion, BPLOG INFO ''minidump.GetAssertion() failed'',
       Call_Get SystemInfo, Call_Print_of SystemInfo,
       Call_Get MiscInfo, Call_Print_of MiscInfo,
       Call_Get BreakpadInfo, BPLOG INFO ''minidump.GetBreakpadInfo() failed'',
       Call_Get MemoryInfoList, Call_Print_of MemoryInfoList,
       Call_Get CrashpadInfo,
       Call_SeekToStreamType MD_LINUX_CMD_LINE, printf ''Stream MD_LINUX_CMD_LINE:\<newline>'',
       Call_ReadBytes MD_LINUX_CMD_LINE 2147483649, printf [], printf terminator_marker],
      Inl BufferOverread) \<and>
   snd (main example_env_huge ''minidump_dump'' [''d.dmp'']) = Inl BufferOverread"
proof -
  have present: "filter (\<lambda>k. \<not> present example_dump_huge k) required_records = []"
    by (simp add: required_records_def example_dump_huge_def example_dump_def)
  have reads: "filter (read_fails example_dump_huge) (map fst raw_catalogue) = []"
    by (simp add: raw_catalogue_def read_fails_def example_dump_huge_def example_dump_def
        example_streams_def huge_stream_def)
  have s: "SetupOptions example_env_huge ''minidump_dump'' [''d.dmp''] Options_init =
      ([], Continue \<lparr>minidumpPath = ''d.dmp'', hexdump = False, hexdump_width = 16,
                      modules_debug_info = False, platform_info = False\<rparr>)"
    by (simp add: SetupOptions_def example_env_huge_def example_env_def Options_init_def)
  have r: "Read example_dump_huge"
    by (simp add: example_dump_huge_def example_dump_def)
  have "snd (PrintMinidumpDump example_env_huge
      \<lparr>minidumpPath = ''d.dmp'', hexdump = False, hexdump_width = 16,
       modules_debug_info = False, platform_info = False\<rparr>) = Inl BufferOverread"
    using r FullDump_huge
    by (simp add: PrintMinidumpDump_def example_env_huge_def example_env_def)
  then obtain es where "PrintMinidumpDump example_env_huge
      \<lparr>minidumpPath = ''d.dmp'', hexdump = False, hexdump_width = 16,
       modules_debug_info = False, platform_info = False\<rparr> = (es, Inl BufferOverread)"
    by (metis prod.collapse)
  then have m: "snd (main example_env_huge ''minidump_dump'' [''d.dmp'']) = Inl BufferOverread"
    using s by (simp add: main_def)
  show ?thesis
    using present reads m FullDump_huge example_dump_huge_records by simp
qed

text \<open>
  What the full dump does on a dump whose raw streams are all shorter than \<open>2\<^sup>3\<^sup>1\<close>
  bytes. It goes through all its steps whatever the dump holds: the header, then for each
  of the eleven records, in their order, the request and the print of the record or the
  log of its absence, then each of the six raw streams; no step is left out because
  another failed. It returns true exactly when the error counter is zero at the end. The
  counter is the number of missing records among the six counted ones (thread list,
  module list, memory list, system information, miscellaneous information,
  memory-information list) plus the number of raw streams whose read failed. So one
  missing counted record makes the dump fail, whatever else is there; and when the six
  are there and no read fails the dump succeeds, whichever of the other five records
  (thread names, exception, assertion, Breakpad information, Crashpad information) are
  missing. Every record is of one of the two sorts. The full dump is what
  \<^verbatim>\<open>PrintMinidumpDump\<close> does, after \<^verbatim>\<open>Read\<close>, when neither mode flag is set.
\<close>

theorem FullDump_all_steps_and_result:
  "(\<not> modules_debug_info options \<and> \<not> platform_info options \<and>
    open_minidump e (minidumpPath options) (hexdump options) = m' \<and> Read m' \<longrightarrow>
      PrintMinidumpDump e options = (Call_Read # fst (FullDump m'), snd (FullDump m'))) \<and>
   (short_streams m \<longrightarrow>
      fst (FullDump m) =
        Call_Print # concat (map (record_events m) full_dump_records) @
        concat (map (\<lambda>(t, name). fst (DumpRawStream m t name 0)) raw_catalogue) \<and>
      snd (FullDump_run m) = Inr (expected_tally m) \<and>
      snd (FullDump m) = Inr (expected_tally m = 0) \<and>
      (\<forall>k \<in> set required_records.
         \<not> present m k \<longrightarrow> 1 \<le> expected_tally m \<and> snd (FullDump m) = Inr False) \<and>
      ((\<forall>k \<in> set required_records. present m k) \<and> (\<forall>t. \<not> read_fails m t) \<longrightarrow>
         expected_tally m = 0 \<and> snd (FullDump m) = Inr True)) \<and>
   (k' \<in> set optional_records \<longleftrightarrow> k' \<notin> set required_records)"
proof (intro conjI ballI impI)
  assume "\<not> modules_debug_info options \<and> \<not> platform_info options \<and>
    open_minidump e (minidumpPath options) (hexdump options) = m' \<and> Read m'"
  then show "PrintMinidumpDump e options = (Call_Read # fst (FullDump m'), snd (FullDump m'))"
    using PrintMinidumpDump_Read[of e options] by (auto simp: Let_def)
next
  assume short: "short_streams m"
  note run = FullDump_run_short[OF short]
  show "fst (FullDump m) =
        Call_Print # concat (map (record_events m) full_dump_records) @
        concat (map (\<lambda>(t, name). fst (DumpRawStream m t name 0)) raw_catalogue)"
    by (simp add: FullDump_def run)
  show "snd (FullDump_run m) = Inr (expected_tally m)"
    by (simp add: run)
  show result: "snd (FullDump m) = Inr (expected_tally m = 0)"
    by (simp add: FullDump_def run)
next
  fix k
  assume short: "short_streams m"
    and k: "k \<in> set required_records" and absent: "\<not> present m k"
  then have "filter (\<lambda>k. \<not> present m k) required_records \<noteq> []"
    by (auto simp: filter_empty_conv)
  then have "1 \<le> length (filter (\<lambda>k. \<not> present m k) required_records)"
    by (simp add: Suc_le_eq)
  then show one: "1 \<le> expected_tally m"
    by (simp add: expected_tally_def)
  then show "snd (FullDump m) = Inr False"
    by (simp add: FullDump_def FullDump_run_short[OF short])
next
  assume short: "short_streams m"
    and ok: "(\<forall>k \<in> set required_records. present m k) \<and> (\<forall>t. \<not> read_fails m t)"
  then have "filter (\<lambda>k. \<not> present m k) required_records = []"
    and "filter (read_fails m) (map fst raw_catalogue) = []"
    by (auto simp: filter_empty_conv)
  then show zero: "expected_tally m = 0"
    by (simp add: expected_tally_def)
  then show "snd (FullDump m) = Inr True"
    by (simp add: FullDump_def FullDump_run_short[OF short])
next
  show "k' \<in> set optional_records \<longleftrightarrow> k' \<notin> set required_records"
    by (cases k') (simp_all add: optional_records_def required_records_def)
qed

theorem FullDump_all_steps_and_result_witness:
  "snd (PrintMinidumpDump example_env
     \<lparr>minidumpPath = ''d.dmp'', hexdump = False, hexdump_width = 16,
      modules_debug_info = False, platform_info = False\<rparr>) = Inr True \<and>
   expected_tally example_dump = 0 \<and> snd (FullDump example_dump) = Inr True \<and>
   1 \<le> expected_tally example_dump_no_threads \<and>
   snd (FullDump example_dump_no_threads) = Inr False \<and>
   fst (FullDump example_dump_no_threads) =
     Call_Print # concat (map (record_events example_dump_no_threads) full_dump_records) @
     concat (map (\<lambda>(t, name). fst (DumpRawStream example_dump_no_threads t name 0))
       raw_catalogue) \<and>
   take 6 (fst (FullDump example_dump_no_threads)) =
     [Call_Print, Call_Get ThreadList, BPLOG ERROR ''minidump.GetThreadList() failed'',
      Call_Get ThreadNameList, Call_set_max_modules UINT32_MAX, Call_Get ModuleList]"
proof -
  have req: "\<forall>k \<in> set required_records. present example_dump k"
    by (simp add: required_records_def example_dump_def)
  have reads: "\<forall>t. \<not> read_fails example_dump t"
    by (simp add: read_fails_def example_dump_def example_streams_def)
  have threads: "ThreadList \<in> set required_records \<and> \<not> present example_dump_no_threads ThreadList"
    by (simp add: required_records_def example_dump_no_threads_def example_dump_def)
  have short: "short_streams example_dump" "short_streams example_dump_no_threads"
    by (simp_all add: short_streams_def short_stream_def raw_catalogue_def example_dump_def
        example_dump_no_threads_def example_streams_def)
  let ?F = "\<lparr>minidumpPath = ''d.dmp'', hexdump = False, hexdump_width = 16,
             modules_debug_info = False, platform_info = False\<rparr>"
  have full: "\<not> modules_debug_info ?F \<and> \<not> platform_info ?F \<and>
      open_minidump example_env (minidumpPath ?F) (hexdump ?F) = example_dump \<and>
      Read example_dump"
    by (simp add: example_env_def example_dump_def)
  have "PrintMinidumpDump example_env ?F =
          (Call_Read # fst (FullDump example_dump), snd (FullDump example_dump)) \<and>
        expected_tally example_dump = 0 \<and> snd (FullDump example_dump) = Inr True"
    using FullDump_all_steps_and_result [of ?F example_env example_dump example_dump]
      req reads full short(1)
    by blast
  moreover have nt: "1 \<le> expected_tally example_dump_no_threads \<and>
      snd (FullDump example_dump_no_threads) = Inr False \<and>
      fst (FullDump example_dump_no_threads) =
        Call_Print # concat (map (record_events example_dump_no_threads) full_dump_records) @
        concat (map (\<lambda>(t, name). fst (DumpRawStream example_dump_no_threads t name 0))
          raw_catalogue)"
    using FullDump_all_steps_and_result [of ?F example_env example_dump example_dump_no_threads]
      threads short(2)
    by blast
  moreover have "take 6 (Call_Print #
        concat (map (record_events example_dump_no_threads) full_dump_records) @
        concat (map (\<lambda>(t, name). fst (DumpRawStream example_dump_no_threads t name 0))
          raw_catalogue)) =
     [Call_Print, Call_Get ThreadList, BPLOG ERROR ''minidump.GetThreadList() failed'',
      Call_Get ThreadNameList, Call_set_max_modules UINT32_MAX, Call_Get ModuleList]"
    by (simp add: full_dump_records_def record_events_def example_dump_no_threads_def
        example_dump_def)
  ultimately show ?thesis by simp
qed

section \<open>Properties of the module summary\<close>






section \<open>Properties of the platform summary\<close>

lemma fmt_u_length: "0 < k \<Longrightarrow> n < 10 ^ k \<Longrightarrow> length (fmt_u n) \<le> k"
proof (induction n arbitrary: k rule: fmt_u.induct)
  case (1 n)
  show ?case
  proof (cases "n < 10")
    case True
    then show ?thesis using "1.prems" by (subst fmt_u.simps) simp
  next
    case False
    obtain k' where k: "k = Suc k'"
      using "1.prems"(1) by (cases k) auto
    have k': "0 < k'"
    proof (rule ccontr)
      assume "\<not> 0 < k'"
      then have "k = 1" using k by simp
      then show False using "1.prems"(2) False by simp
    qed
    have "n < 10 * 10 ^ k'"
      using "1.prems"(2) k by simp
    then have "n div 10 < 10 ^ k'"
      by (simp add: less_mult_imp_div_less mult.commute)
    then have "length (fmt_u (n div 10)) \<le> k'"
      using "1.IH" False k' by simp
    then show ?thesis
      using False k by (subst fmt_u.simps) simp
  qed
qed

lemma fmt_u_uint32: "length (fmt_u (unat (w :: uint32_t))) \<le> 10"
proof -
  have "unat w < 2 ^ 32" using unsigned_less[of w] by simp
  then have "unat w < 10 ^ 10" by simp
  then show ?thesis by (intro fmt_u_length) simp_all
qed

lemma fmt_u_length_ge: "10 ^ k \<le> n \<Longrightarrow> k < length (fmt_u n)"
proof (induction n arbitrary: k rule: fmt_u.induct)
  case (1 n)
  show ?case
  proof (cases "n < 10")
    case True
    have "k = 0"
    proof (rule ccontr)
      assume "k \<noteq> 0"
      then obtain k' where "k = Suc k'" by (cases k) auto
      then have "(10::nat) \<le> 10 ^ k" by simp
      then show False using "1.prems" True by simp
    qed
    then show ?thesis using True by (subst fmt_u.simps) simp
  next
    case False
    show ?thesis
    proof (cases k)
      case 0
      then show ?thesis using False by (subst fmt_u.simps) simp
    next
      case (Suc k')
      then have "10 ^ k' * 10 \<le> n"
        using "1.prems" by (simp add: mult.commute)
      then have "10 ^ k' \<le> n div 10"
        by (simp add: less_eq_div_iff_mult_less_eq)
      then have "k' < length (fmt_u (n div 10))"
        using "1.IH" False by simp
      then show ?thesis using False Suc by (subst fmt_u.simps) simp
    qed
  qed
qed

lemma fmt_u_uint32_ten:
  "length (fmt_u (unat (w :: uint32_t))) = 10 \<longleftrightarrow> 1000000000 \<le> unat w"
proof
  assume "length (fmt_u (unat w)) = 10"
  show "1000000000 \<le> unat w"
  proof (rule ccontr)
    assume "\<not> 1000000000 \<le> unat w"
    then have "unat w < 10 ^ 9" by simp
    then have "length (fmt_u (unat w)) \<le> 9" by (intro fmt_u_length) simp_all
    then show False using \<open>length (fmt_u (unat w)) = 10\<close> by simp
  qed
next
  assume "1000000000 \<le> unat w"
  then have "10 ^ 9 \<le> unat w" by simp
  then have "9 < length (fmt_u (unat w))" by (rule fmt_u_length_ge)
  then show "length (fmt_u (unat w)) = 10"
    using fmt_u_uint32[of w] by simp
qed

lemma sprintf_sys_ver_overrun_iff:
  "sprintf_sys_ver raw = Inl BufferOverrun \<longleftrightarrow>
     1000000000 \<le> unat (major_version raw) \<and> 1000000000 \<le> unat (minor_version raw) \<and>
     1000000000 \<le> unat (build_number raw)"
proof -
  have "sprintf_sys_ver raw = Inl BufferOverrun \<longleftrightarrow>
      30 \<le> length (fmt_u (unat (major_version raw))) + length (fmt_u (unat (minor_version raw))) +
           length (fmt_u (unat (build_number raw)))"
    by (auto simp: sprintf_sys_ver_def version_text_def sys_ver_size_def)
  also have "\<dots> \<longleftrightarrow> length (fmt_u (unat (major_version raw))) = 10 \<and>
      length (fmt_u (unat (minor_version raw))) = 10 \<and>
      length (fmt_u (unat (build_number raw))) = 10"
    using fmt_u_uint32[of "major_version raw"] fmt_u_uint32[of "minor_version raw"]
      fmt_u_uint32[of "build_number raw"]
    by arith
  finally show ?thesis
    by (simp only: fmt_u_uint32_ten)
qed

lemma fmt_u_nonempty: "fmt_u n \<noteq> []"
  by (subst fmt_u.simps) simp

lemma digit_in: "d < 10 \<Longrightarrow> digit d \<in> set ''0123456789''"
  unfolding digit_def by (rule nth_mem) simp

lemma fmt_u_digits: "set (fmt_u n) \<subseteq> set ''0123456789''"
proof (induction n rule: fmt_u.induct)
  case (1 n)
  show ?case
  proof (cases "n < 10")
    case True
    then show ?thesis using digit_in[of n] by (subst fmt_u.simps) simp
  next
    case False
    then show ?thesis using 1 digit_in[of "n mod 10"] by (subst fmt_u.simps) simp
  qed
qed

lemma of_char_digit: "d < 10 \<Longrightarrow> of_char (digit d) = 48 + d"
proof -
  assume "d < 10"
  then have "d = 0 \<or> d = 1 \<or> d = 2 \<or> d = 3 \<or> d = 4 \<or> d = 5 \<or> d = 6 \<or> d = 7 \<or> d = 8 \<or> d = 9"
    by arith
  then show ?thesis
    by (elim disjE) (simp_all add: digit_def)
qed

lemma decimal_value_snoc: "decimal_value (s @ [c]) = 10 * decimal_value s + (of_char c - 48)"
  by (simp add: decimal_value_def)

lemma decimal_value_fmt_u: "decimal_value (fmt_u n) = n"
proof (induction n rule: fmt_u.induct)
  case (1 n)
  show ?case
  proof (cases "n < 10")
    case True
    then show ?thesis
      by (subst fmt_u.simps) (simp add: decimal_value_def of_char_digit)
  next
    case False
    have "decimal_value (fmt_u (n div 10) @ [digit (n mod 10)]) = 10 * (n div 10) + n mod 10"
      using "1.IH"[OF False] by (simp add: decimal_value_snoc of_char_digit)
    then show ?thesis
      using False by (subst fmt_u.simps) simp
  qed
qed

lemma version_text_length: "length (version_text raw) \<le> 32"
  using fmt_u_uint32[of "major_version raw"] fmt_u_uint32[of "minor_version raw"]
    fmt_u_uint32[of "build_number raw"]
  by (simp add: version_text_def)

lemma fmt_u_max: "fmt_u 4294967295 = ''4294967295''"
  by (simp add: fmt_u.simps digit_def)

lemma version_text_max: "version_text max_version = ''4294967295.4294967295.4294967295''"
  by (simp add: version_text_def max_version_def fmt_u_max)

text \<open>
  Claim C9 does not hold of the code. The claim is that the version text and its closing
  NUL always fit the 32 bytes of \<^verbatim>\<open>sys_ver\<close>. Three components of ten digits each
  make a text of 32 characters, which with the NUL is 33 bytes: for the version
  4294967295.4294967295.4294967295 \<^verbatim>\<open>sprintf\<close> writes one byte past the end of the
  array. It does so exactly for the versions whose three components are all
  1000000000 or more.
\<close>

theorem sys_ver_overrun:
  "version_text max_version = ''4294967295.4294967295.4294967295'' \<and>
   length (version_text max_version) + 1 = 33 \<and> sys_ver_size = 32 \<and>
   sprintf_sys_ver max_version = Inl BufferOverrun \<and>
   (sprintf_sys_ver raw = Inl BufferOverrun) =
     (1000000000 \<le> unat (major_version raw) \<and> 1000000000 \<le> unat (minor_version raw) \<and>
      1000000000 \<le> unat (build_number raw))"
  using sprintf_sys_ver_overrun_iff[of raw]
  by (simp add: sprintf_sys_ver_def version_text_max sys_ver_size_def)

text \<open>
  Claim C5 does not hold of the code for the same reason. In a dump whose system
  information has the version 4294967295.4294967295.4294967295 the platform summary
  overruns \<^verbatim>\<open>sys_ver\<close> before it prints, so the line the claim describes is not what
  the run is bound to write.
\<close>

theorem PlatformInfo_overrun:
  "PlatformInfo example_dump_max_version = ([Call_Get SystemInfo], Inl BufferOverrun) \<and>
   main example_env_max_version ''minidump_dump'' [''-P'', ''d.dmp''] =
     ([Call_Read, Call_Get SystemInfo], Inl BufferOverrun)"
proof -
  have p: "PlatformInfo example_dump_max_version = ([Call_Get SystemInfo], Inl BufferOverrun)"
    by (simp add: PlatformInfo_def example_dump_max_version_def example_dump_def
        example_system_info_def sprintf_sys_ver_def version_text_max sys_ver_size_def)
  have s: "SetupOptions example_env_max_version ''minidump_dump'' [''-P'', ''d.dmp'']
      Options_init =
      ([], Continue \<lparr>minidumpPath = ''d.dmp'', hexdump = False, hexdump_width = 16,
                      modules_debug_info = False, platform_info = True\<rparr>)"
    by (simp add: SetupOptions_def example_env_max_version_def example_env_def getopt_char_def
        Options_init_def)
  have r: "Read example_dump_max_version"
    by (simp add: example_dump_max_version_def example_dump_def)
  have "PrintMinidumpDump example_env_max_version
      \<lparr>minidumpPath = ''d.dmp'', hexdump = False, hexdump_width = 16,
       modules_debug_info = False, platform_info = True\<rparr> =
      ([Call_Read, Call_Get SystemInfo], Inl BufferOverrun)"
    using p r by (simp add: PrintMinidumpDump_def example_env_max_version_def)
  with s p show ?thesis
    by (simp add: main_def)
qed

text \<open>
  What the platform summary does where the version text fits. Without system
  information it prints nothing and returns false. With it, it prints one line, the
  name of the operating system, the version and the name of the CPU with a semicolon
  between them, and returns true; the version is empty when there is no raw record, and
  otherwise the three components in decimal with a dot between them, provided that
  text is shorter than 32 characters (it never has more than 32). \<open>fmt_u\<close> writes
  the decimal numeral of its argument: digits only, at least one, with the value of the
  argument. The platform summary is what \<^verbatim>\<open>PrintMinidumpDump\<close> does, after
  \<^verbatim>\<open>Read\<close>, when \<open>platform_info\<close> is set and \<open>modules_debug_info\<close> is not.
\<close>

theorem PlatformInfo_line:
  "(\<not> modules_debug_info options \<and> platform_info options \<and>
    open_minidump e (minidumpPath options) (hexdump options) = m' \<and> Read m' \<longrightarrow>
      PrintMinidumpDump e options = (Call_Read # fst (PlatformInfo m'), snd (PlatformInfo m'))) \<and>
   (GetSystemInfo minidump = None \<longrightarrow>
      PlatformInfo minidump = ([Call_Get SystemInfo], Inr False)) \<and>
   (GetSystemInfo minidump1 = Some sys_info1 \<and> system_info sys_info1 = None \<longrightarrow>
      PlatformInfo minidump1 =
        ([Call_Get SystemInfo,
          printf (c_str (GetOS sys_info1) @ '';'' @ '';'' @ c_str (GetCPU sys_info1) @ ''\<newline>'')],
         Inr True)) \<and>
   (GetSystemInfo minidump2 = Some sys_info2 \<and> system_info sys_info2 = Some raw \<and>
    length (version_text raw) < 32 \<longrightarrow>
      PlatformInfo minidump2 =
        ([Call_Get SystemInfo,
          printf (c_str (GetOS sys_info2) @ '';'' @ version_text raw @ '';'' @
                  c_str (GetCPU sys_info2) @ ''\<newline>'')],
         Inr True)) \<and>
   version_text raw' =
     fmt_u (unat (major_version raw')) @ ''.'' @ fmt_u (unat (minor_version raw')) @ ''.'' @
     fmt_u (unat (build_number raw')) \<and>
   length (version_text raw') \<le> 32 \<and>
   fmt_u n \<noteq> [] \<and> set (fmt_u n) \<subseteq> set ''0123456789'' \<and> decimal_value (fmt_u n) = n"
proof (intro conjI impI)
  assume "\<not> modules_debug_info options \<and> platform_info options \<and>
    open_minidump e (minidumpPath options) (hexdump options) = m' \<and> Read m'"
  then show "PrintMinidumpDump e options =
      (Call_Read # fst (PlatformInfo m'), snd (PlatformInfo m'))"
    using PrintMinidumpDump_Read[of e options] by (auto simp: Let_def)
next
  assume "GetSystemInfo minidump = None"
  then show "PlatformInfo minidump = ([Call_Get SystemInfo], Inr False)"
    by (simp add: PlatformInfo_def)
next
  assume "GetSystemInfo minidump1 = Some sys_info1 \<and> system_info sys_info1 = None"
  then show "PlatformInfo minidump1 =
        ([Call_Get SystemInfo,
          printf (c_str (GetOS sys_info1) @ '';'' @ '';'' @ c_str (GetCPU sys_info1) @ ''\<newline>'')],
         Inr True)"
    by (simp add: PlatformInfo_def)
next
  assume "GetSystemInfo minidump2 = Some sys_info2 \<and> system_info sys_info2 = Some raw \<and>
    length (version_text raw) < 32"
  then show "PlatformInfo minidump2 =
        ([Call_Get SystemInfo,
          printf (c_str (GetOS sys_info2) @ '';'' @ version_text raw @ '';'' @
                  c_str (GetCPU sys_info2) @ ''\<newline>'')],
         Inr True)"
    by (simp add: PlatformInfo_def sprintf_sys_ver_def sys_ver_size_def)
next
  show "version_text raw' =
     fmt_u (unat (major_version raw')) @ ''.'' @ fmt_u (unat (minor_version raw')) @ ''.'' @
     fmt_u (unat (build_number raw'))"
    by (simp add: version_text_def)
  show "length (version_text raw') \<le> 32"
    by (rule version_text_length)
  show "fmt_u n \<noteq> []"
    by (rule fmt_u_nonempty)
  show "set (fmt_u n) \<subseteq> set ''0123456789''"
    by (rule fmt_u_digits)
  show "decimal_value (fmt_u n) = n"
    by (rule decimal_value_fmt_u)
qed

theorem PlatformInfo_line_witness:
  "PrintMinidumpDump example_env
     \<lparr>minidumpPath = ''d.dmp'', hexdump = False, hexdump_width = 16,
      modules_debug_info = False, platform_info = True\<rparr> =
     (Call_Read # fst (PlatformInfo example_dump), snd (PlatformInfo example_dump)) \<and>
   PlatformInfo example_dump_no_system_info = ([Call_Get SystemInfo], Inr False) \<and>
   PlatformInfo example_dump_no_version =
     ([Call_Get SystemInfo, printf ''windows;;amd64\<newline>''], Inr True) \<and>
   PlatformInfo example_dump =
     ([Call_Get SystemInfo, printf ''windows;10.0.19041;amd64\<newline>''], Inr True)"
proof -
  let ?raw = "\<lparr>major_version = 10, minor_version = 0, build_number = 19041\<rparr>"
  have v: "version_text ?raw = ''10.0.19041''"
    by (simp add: version_text_def fmt_u.simps digit_def)
  have 1: "GetSystemInfo example_dump_no_system_info = None"
    by (simp add: example_dump_no_system_info_def example_dump_def)
  have 2: "GetSystemInfo example_dump_no_version =
        Some (example_system_info\<lparr>system_info := None\<rparr>) \<and>
      system_info (example_system_info\<lparr>system_info := None\<rparr>) = None"
    by (simp add: example_dump_no_version_def example_dump_def)
  have 3: "GetSystemInfo example_dump = Some example_system_info \<and>
      system_info example_system_info = Some ?raw \<and> length (version_text ?raw) < 32"
    by (simp add: example_dump_def example_system_info_def v)
  let ?P = "\<lparr>minidumpPath = ''d.dmp'', hexdump = False, hexdump_width = 16,
             modules_debug_info = False, platform_info = True\<rparr>"
  have mode: "\<not> modules_debug_info ?P \<and> platform_info ?P \<and>
      open_minidump example_env (minidumpPath ?P) (hexdump ?P) = example_dump \<and>
      Read example_dump"
    by (simp add: example_env_def example_dump_def)
  show ?thesis
    using PlatformInfo_line [of ?P example_env example_dump example_dump_no_system_info
        example_dump_no_version "example_system_info\<lparr>system_info := None\<rparr>" example_dump
        example_system_info ?raw]
      1 2 3 mode
    by (simp add: v) (simp add: example_system_info_def c_str_def NUL_def)
qed

section \<open>Properties of the option parser, the mode selection and the exit code\<close>

lemma SetupOptions_loop_flags:
  "set chs \<subseteq> {CHR ''x'', CHR ''M'', CHR ''P''} \<Longrightarrow>
   SetupOptions_loop e argv0 chs options =
     ([], Continue (options\<lparr>hexdump := hexdump options \<or> CHR ''x'' \<in> set chs,
                            modules_debug_info := modules_debug_info options \<or> CHR ''M'' \<in> set chs,
                            platform_info := platform_info options \<or> CHR ''P'' \<in> set chs\<rparr>))"
proof (induction chs arbitrary: options)
  case Nil
  then show ?case by simp
next
  case (Cons ch chs)
  then have ch: "ch = CHR ''x'' \<or> ch = CHR ''M'' \<or> ch = CHR ''P''"
    and rest: "set chs \<subseteq> {CHR ''x'', CHR ''M'', CHR ''P''}"
    by auto
  from ch show ?case
    by (elim disjE) (simp_all add: Cons.IH[OF rest])
qed


lemma SetupOptions_loop_Continue:
  "SetupOptions_loop e argv0 chs options = (es, Continue options') \<Longrightarrow> es = []"
  by (induction chs arbitrary: options) (auto split: if_splits)

lemma SetupOptions_Continue:
  assumes "SetupOptions e argv0 args options = (es, Continue options')"
  shows "es = []"
  using assms SetupOptions_loop_Continue
  unfolding SetupOptions_def
  by (fastforce split: prod.splits flow.splits if_splits)

lemma modules_loop_printf:
  "ev \<in> set (modules_loop modules n i) \<Longrightarrow> \<exists>s. ev = printf s"
proof (induction modules n i rule: modules_loop.induct)
  case (1 modules modules_n i)
  show ?case
  proof (cases "i < modules_n")
    case False
    then show ?thesis using "1.prems" by (simp add: modules_loop.simps)
  next
    case True
    from "1.prems" have "ev \<in> set (case GetModuleAtIndex modules i of
           None \<Rightarrow> [] | Some m \<Rightarrow> [printf (module_line m)]) \<or>
         ev \<in> set (modules_loop modules modules_n (i + 1))"
      using True by (subst (asm) modules_loop.simps) simp
    then show ?thesis
      using "1.IH"[OF True] by (auto split: option.splits)
  qed
qed

lemma ModulesDebugInfo_events:
  "Call_Get ModuleList \<in> set (fst (ModulesDebugInfo minidump))"
  "Call_Print \<notin> set (fst (ModulesDebugInfo minidump))"
  "Call_Get SystemInfo \<notin> set (fst (ModulesDebugInfo minidump))"
  using modules_loop_printf
  by (auto simp: ModulesDebugInfo_def split: option.splits)

lemma PlatformInfo_events:
  "Call_Get SystemInfo \<in> set (fst (PlatformInfo minidump))"
  "Call_Print \<notin> set (fst (PlatformInfo minidump))"
  "Call_Get ModuleList \<notin> set (fst (PlatformInfo minidump))"
  by (auto simp: PlatformInfo_def split: option.splits sum.splits)

lemma FullDump_events: "Call_Print \<in> set (fst (FullDump minidump))"
  by (simp add: FullDump_def FullDump_run_def split: prod.splits sum.splits)

lemma PrintMinidumpDump_modes:
  assumes "Read (open_minidump e (minidumpPath options) (hexdump options))"
  shows "module_summary_ran (fst (PrintMinidumpDump e options)) \<longleftrightarrow> modules_debug_info options"
    and "platform_summary_ran (fst (PrintMinidumpDump e options)) \<longleftrightarrow>
           \<not> modules_debug_info options \<and> platform_info options"
    and "full_dump_ran (fst (PrintMinidumpDump e options)) \<longleftrightarrow>
           \<not> modules_debug_info options \<and> \<not> platform_info options"
  unfolding PrintMinidumpDump_Read[OF assms] module_summary_ran_def platform_summary_ran_def
    full_dump_ran_def
  by (simp_all add: Let_def ModulesDebugInfo_events PlatformInfo_events FullDump_events)

lemma SetupOptions_flags:
  assumes "getopt_scan (getopt_permutes e) args = (chs, [path])"
    and "set chs \<subseteq> {CHR ''x'', CHR ''M'', CHR ''P''}"
  shows "SetupOptions e argv0 args Options_init =
     ([], Continue \<lparr>minidumpPath = path, hexdump = (CHR ''x'' \<in> set chs), hexdump_width = 16,
                     modules_debug_info = (CHR ''M'' \<in> set chs),
                     platform_info = (CHR ''P'' \<in> set chs)\<rparr>)"
  using assms(1) SetupOptions_loop_flags[OF assms(2), of e argv0 Options_init]
  by (simp add: SetupOptions_def Options_init_def)

text \<open>
  Claim C6, as the code has it. The two mode flags are set one by one, each by its own
  option, and nothing refuses a command line that gives both: when every option is one
  of \<open>x\<close>, \<open>M\<close>, \<open>P\<close> and there is one operand, \<^verbatim>\<open>SetupOptions\<close> hands back the
  options with \<open>modules_debug_info\<close> set exactly when \<open>M\<close> was given and
  \<open>platform_info\<close> set exactly when \<open>P\<close> was given. Of the three modes exactly one
  runs on a dump that can be read: the module summary when \<open>modules_debug_info\<close> is set
  (whatever \<open>platform_info\<close> is), the platform summary when only \<open>platform_info\<close> is
  set, the full dump when neither is.
\<close>

theorem mode_selection:
  "(getopt_scan (getopt_permutes e) args = (chs, [path]) \<and>
    set chs \<subseteq> {CHR ''x'', CHR ''M'', CHR ''P''} \<longrightarrow>
      SetupOptions e argv0 args Options_init =
        ([], Continue \<lparr>minidumpPath = path, hexdump = (CHR ''x'' \<in> set chs),
                        hexdump_width = 16,
                        modules_debug_info = (CHR ''M'' \<in> set chs),
                        platform_info = (CHR ''P'' \<in> set chs)\<rparr>)) \<and>
   (Read (open_minidump e (minidumpPath options) (hexdump options)) \<longrightarrow>
      (module_summary_ran (fst (PrintMinidumpDump e options)) \<longleftrightarrow>
         modules_debug_info options) \<and>
      (platform_summary_ran (fst (PrintMinidumpDump e options)) \<longleftrightarrow>
         \<not> modules_debug_info options \<and> platform_info options) \<and>
      (full_dump_ran (fst (PrintMinidumpDump e options)) \<longleftrightarrow>
         \<not> modules_debug_info options \<and> \<not> platform_info options) \<and>
      of_bool (module_summary_ran (fst (PrintMinidumpDump e options))) +
      of_bool (platform_summary_ran (fst (PrintMinidumpDump e options))) +
      of_bool (full_dump_ran (fst (PrintMinidumpDump e options))) = (1 :: nat))"
proof (intro conjI impI)
  assume "getopt_scan (getopt_permutes e) args = (chs, [path]) \<and>
    set chs \<subseteq> {CHR ''x'', CHR ''M'', CHR ''P''}"
  then show "SetupOptions e argv0 args Options_init =
        ([], Continue \<lparr>minidumpPath = path, hexdump = (CHR ''x'' \<in> set chs),
                        hexdump_width = 16,
                        modules_debug_info = (CHR ''M'' \<in> set chs),
                        platform_info = (CHR ''P'' \<in> set chs)\<rparr>)"
    by (intro SetupOptions_flags) simp_all
next
  assume r: "Read (open_minidump e (minidumpPath options) (hexdump options))"
  note m = PrintMinidumpDump_modes[OF r]
  show "module_summary_ran (fst (PrintMinidumpDump e options)) \<longleftrightarrow> modules_debug_info options"
    by (rule m(1))
  show "platform_summary_ran (fst (PrintMinidumpDump e options)) \<longleftrightarrow>
         \<not> modules_debug_info options \<and> platform_info options"
    by (rule m(2))
  show "full_dump_ran (fst (PrintMinidumpDump e options)) \<longleftrightarrow>
         \<not> modules_debug_info options \<and> \<not> platform_info options"
    by (rule m(3))
  show "of_bool (module_summary_ran (fst (PrintMinidumpDump e options))) +
      of_bool (platform_summary_ran (fst (PrintMinidumpDump e options))) +
      of_bool (full_dump_ran (fst (PrintMinidumpDump e options))) = (1 :: nat)"
    unfolding m by simp
qed

theorem mode_selection_witness:
  "SetupOptions example_env ''minidump_dump'' [''-M'', ''-P'', ''d.dmp''] Options_init =
     ([], Continue \<lparr>minidumpPath = ''d.dmp'', hexdump = False, hexdump_width = 16,
                     modules_debug_info = True, platform_info = True\<rparr>) \<and>
   module_summary_ran (fst (PrintMinidumpDump example_env
     \<lparr>minidumpPath = ''d.dmp'', hexdump = False, hexdump_width = 16,
      modules_debug_info = True, platform_info = True\<rparr>)) \<and>
   \<not> platform_summary_ran (fst (PrintMinidumpDump example_env
     \<lparr>minidumpPath = ''d.dmp'', hexdump = False, hexdump_width = 16,
      modules_debug_info = True, platform_info = True\<rparr>)) \<and>
   \<not> full_dump_ran (fst (PrintMinidumpDump example_env
     \<lparr>minidumpPath = ''d.dmp'', hexdump = False, hexdump_width = 16,
      modules_debug_info = True, platform_info = True\<rparr>))"
proof -
  have scan: "getopt_scan (getopt_permutes example_env) [''-M'', ''-P'', ''d.dmp''] =
      ([CHR ''M'', CHR ''P''], [''d.dmp''])"
    by (simp add: example_env_def getopt_char_def)
  have rd: "Read (open_minidump example_env ''d.dmp'' False)"
    by (simp add: example_env_def example_dump_def)
  show ?thesis
    using mode_selection [of example_env "[''-M'', ''-P'', ''d.dmp'']" "[CHR ''M'', CHR ''P'']"
        "''d.dmp''" "''minidump_dump''"
        "\<lparr>minidumpPath = ''d.dmp'', hexdump = False, hexdump_width = 16,
          modules_debug_info = True, platform_info = True\<rparr>"] scan rd
    by simp
qed

text \<open>
  The claim as it was stated fails: the command line \<^verbatim>\<open>-M -P d.dmp\<close> is accepted, the
  options it produces have both mode flags set, and the run ends with exit code 0.
\<close>

theorem both_flags_counterexample:
  "SetupOptions example_env ''minidump_dump'' [''-M'', ''-P'', ''d.dmp''] Options_init =
     ([], Continue \<lparr>minidumpPath = ''d.dmp'', hexdump = False, hexdump_width = 16,
                     modules_debug_info = True, platform_info = True\<rparr>) \<and>
   snd (main example_env ''minidump_dump'' [''-M'', ''-P'', ''d.dmp'']) = Inr 0"
proof -
  have s: "SetupOptions example_env ''minidump_dump'' [''-M'', ''-P'', ''d.dmp''] Options_init =
     ([], Continue \<lparr>minidumpPath = ''d.dmp'', hexdump = False, hexdump_width = 16,
                     modules_debug_info = True, platform_info = True\<rparr>)"
    by (simp add: SetupOptions_def example_env_def getopt_char_def Options_init_def)
  have p: "snd (PrintMinidumpDump example_env \<lparr>minidumpPath = ''d.dmp'', hexdump = False,
      hexdump_width = 16, modules_debug_info = True, platform_info = True\<rparr>) = Inr True"
    by (simp add: PrintMinidumpDump_def example_env_def example_dump_def ModulesDebugInfo_def
        Let_def split: prod.splits)
  obtain es' where "PrintMinidumpDump example_env \<lparr>minidumpPath = ''d.dmp'', hexdump = False,
      hexdump_width = 16, modules_debug_info = True, platform_info = True\<rparr> = (es', Inr True)"
    using p by (metis prod.collapse)
  then show ?thesis
    using s by (simp add: main_def)
qed



text \<open>
  Claim C10. With \<open>modules_debug_info\<close> set, \<^verbatim>\<open>PrintMinidumpDump\<close> does the same
  whether \<open>platform_info\<close> is set or not: the same events and the same result, and
  the system information is never asked for, so no platform line is written. A command
  line that sets both flags therefore runs, and exits, exactly as any command line that
  gives the same options with only the module flag set.
\<close>

theorem both_flags_as_modules_only:
  "(modules_debug_info options \<longrightarrow>
      PrintMinidumpDump e options = PrintMinidumpDump e (options\<lparr>platform_info := False\<rparr>) \<and>
      Call_Get SystemInfo \<notin> set (fst (PrintMinidumpDump e options)) \<and>
      \<not> platform_summary_ran (fst (PrintMinidumpDump e options))) \<and>
   (SetupOptions e argv0 args Options_init = (es, Continue options') \<and>
    modules_debug_info options' \<and> platform_info options' \<and>
    SetupOptions e argv0 args' Options_init =
      (es', Continue (options'\<lparr>platform_info := False\<rparr>)) \<longrightarrow>
      main e argv0 args = main e argv0 args')"
proof (intro conjI impI)
  assume m: "modules_debug_info options"
  then show eq: "PrintMinidumpDump e options =
      PrintMinidumpDump e (options\<lparr>platform_info := False\<rparr>)"
    by (simp add: PrintMinidumpDump_def Let_def)
  show no: "Call_Get SystemInfo \<notin> set (fst (PrintMinidumpDump e options))"
  proof (cases "Read (open_minidump e (minidumpPath options) (hexdump options))")
    case True
    then show ?thesis
      using m ModulesDebugInfo_events(3) by (simp add: PrintMinidumpDump_Read Let_def)
  next
    case False
    then show ?thesis by (simp add: PrintMinidumpDump_def Let_def)
  qed
  then show "\<not> platform_summary_ran (fst (PrintMinidumpDump e options))"
    by (simp add: platform_summary_ran_def)
next
  assume a: "SetupOptions e argv0 args Options_init = (es, Continue options') \<and>
    modules_debug_info options' \<and> platform_info options' \<and>
    SetupOptions e argv0 args' Options_init =
      (es', Continue (options'\<lparr>platform_info := False\<rparr>))"
  then have "es = []" and "es' = []"
    using SetupOptions_Continue by blast+
  moreover have "PrintMinidumpDump e options' =
      PrintMinidumpDump e (options'\<lparr>platform_info := False\<rparr>)"
    using a by (simp add: PrintMinidumpDump_def Let_def)
  ultimately show "main e argv0 args = main e argv0 args'"
    using a by (simp add: main_def)
qed

theorem both_flags_as_modules_only_witness:
  "main example_env ''minidump_dump'' [''-M'', ''-P'', ''d.dmp''] =
   main example_env ''minidump_dump'' [''-M'', ''d.dmp''] \<and>
   Call_Get SystemInfo \<notin> set (fst (PrintMinidumpDump example_env
     \<lparr>minidumpPath = ''d.dmp'', hexdump = False, hexdump_width = 16,
      modules_debug_info = True, platform_info = True\<rparr>))"
proof -
  let ?B = "\<lparr>minidumpPath = ''d.dmp'', hexdump = False, hexdump_width = 16,
             modules_debug_info = True, platform_info = True\<rparr>"
  have sB: "SetupOptions example_env ''minidump_dump'' [''-M'', ''-P'', ''d.dmp''] Options_init =
      ([], Continue ?B)"
    by (simp add: SetupOptions_def example_env_def getopt_char_def Options_init_def)
  have sM: "SetupOptions example_env ''minidump_dump'' [''-M'', ''d.dmp''] Options_init =
      ([], Continue (?B\<lparr>platform_info := False\<rparr>))"
    by (simp add: SetupOptions_def example_env_def getopt_char_def Options_init_def)
  have flags: "modules_debug_info ?B" "platform_info ?B"
    by simp_all
  show ?thesis
    using both_flags_as_modules_only [of ?B example_env "''minidump_dump''"
        "[''-M'', ''-P'', ''d.dmp'']" "[]" ?B "[''-M'', ''d.dmp'']" "[]"] sB sM flags
    by blast
qed

end
